theory Spec2Isabelle
  imports Complex_Main "HOL-Library.AList"
begin

section \<open>JavaScript values used by the ledger and the router\<close>

text \<open>
  A JavaScript number is a double. A finite double is a rational, so numbers are values
  of type \<open>rat\<close>, and every arithmetic operation of the source is the exact operation
  followed by the rounding of IEEE 754 binary64 (section below). \<open>NaN\<close> and the
  infinities have no value in the model: the one division whose divisor can be zero is
  written out as branches, and a result beyond the largest double is not followed further.

  A JavaScript \<open>Map\<close> iterates in insertion order; \<open>set\<close> on a present key keeps
  the position of the key and \<open>set\<close> on an absent key appends. The model is an
  association list with exactly these operations.

  Events sent with \<open>emit\<close> and console output are not part of the model: no method
  modelled here reads them.
\<close>

type_synonym ('k, 'v) js_map = "('k \<times> 'v) list"

definition Map_get :: "('k, 'v) js_map \<Rightarrow> 'k \<Rightarrow> 'v option" where
  "Map_get m k = map_of m k"

definition Map_set :: "('k, 'v) js_map \<Rightarrow> 'k \<Rightarrow> 'v \<Rightarrow> ('k, 'v) js_map" where
  "Map_set m k v = AList.update k v m"

definition Map_delete :: "('k, 'v) js_map \<Rightarrow> 'k \<Rightarrow> ('k, 'v) js_map" where
  "Map_delete m k = AList.delete k m"

subsection \<open>Double precision arithmetic\<close>

text \<open>
  \<open>floor_log fuel b x\<close> is the integer \<open>e\<close> with \<open>b ^ e \<le> x < b ^ (e + 1)\<close> for a positive
  \<open>x\<close>, found in at most \<open>fuel\<close> steps; 2200 steps cover every double.
  \<open>round64\<close> rounds to the nearest double, ties to the even significand: the spacing of
  the doubles around \<open>x\<close> is \<open>2 ^ (e - 52)\<close> for the binary exponent \<open>e\<close> of \<open>x\<close>, and
  \<open>2 ^ (- 1074)\<close> below the normal range.
\<close>

fun floor_log :: "nat \<Rightarrow> rat \<Rightarrow> rat \<Rightarrow> int" where
  "floor_log fuel b x =
     (if fuel = 0 then 0
      else if b \<le> x then floor_log (fuel - 1) b (x / b) + 1
      else if x < 1 then floor_log (fuel - 1) b (x * b) - 1
      else 0)"

declare floor_log.simps [simp del]

definition pow_int :: "rat \<Rightarrow> int \<Rightarrow> rat" where
  "pow_int b e = (if 0 \<le> e then b ^ nat e else 1 / b ^ nat (- e))"

definition round_half_even :: "rat \<Rightarrow> int" where
  "round_half_even r =
     (let f = \<lfloor>r\<rfloor>; d = r - of_int f
      in if d < 1 / 2 then f else if 1 / 2 < d then f + 1 else if even f then f else f + 1)"

definition round64 :: "rat \<Rightarrow> rat" where
  "round64 x =
     (if x = 0 then 0
      else let e = max (floor_log 2200 2 \<bar>x\<bar>) (- 1022);
               q = pow_int 2 (e - 52)
           in of_int (round_half_even (x / q)) * q)"

text \<open>The operators \<open>+\<close>, \<open>-\<close>, \<open>*\<close> and \<open>/\<close> on numbers (the divisor not zero).\<close>

definition js_add :: "rat \<Rightarrow> rat \<Rightarrow> rat" where
  "js_add x y = round64 (x + y)"

definition js_sub :: "rat \<Rightarrow> rat \<Rightarrow> rat" where
  "js_sub x y = round64 (x - y)"

definition js_mul :: "rat \<Rightarrow> rat \<Rightarrow> rat" where
  "js_mul x y = round64 (x * y)"

definition js_div :: "rat \<Rightarrow> rat \<Rightarrow> rat" where
  "js_div x y = round64 (x / y)"

subsection \<open>The decimal library\<close>

text \<open>
  \<open>new Big(x)\<close> on a number parses the text \<open>String(x)\<close>, which is the decimal with the
  fewest significant digits that reads back as \<open>x\<close>, the closest to \<open>x\<close> among those of
  that length; seventeen digits always suffice. \<open>decimal_with k x\<close> is that decimal when
  \<open>k\<close> digits are enough. Multiplication of decimals is exact, and \<open>toNumber\<close> reads
  the decimal as a number, which rounds it to the nearest double.
\<close>

definition decimal_with :: "nat \<Rightarrow> rat \<Rightarrow> rat option" where
  "decimal_with k x =
     (let u = pow_int 10 (floor_log 2200 10 x - int k + 1);
          s = \<lfloor>x / u\<rfloor>;
          lo = of_int s * u;
          hi = lo + u
      in if round64 lo = x \<and> round64 hi = x then
           (if x - lo < hi - x then Some lo
            else if hi - x < x - lo then Some hi
            else if even s then Some lo else Some hi)
         else if round64 lo = x then Some lo
         else if round64 hi = x then Some hi
         else None)"

fun shortest_decimal :: "nat \<Rightarrow> nat \<Rightarrow> rat \<Rightarrow> rat" where
  "shortest_decimal fuel k x =
     (if fuel = 0 then x
      else case decimal_with k x of
             Some d \<Rightarrow> d
           | None \<Rightarrow> shortest_decimal (fuel - 1) (k + 1) x)"

declare shortest_decimal.simps [simp del]

definition Big :: "rat \<Rightarrow> rat" where
  "Big x = (if x = 0 then 0
            else if x < 0 then - shortest_decimal 17 1 (- x)
            else shortest_decimal 17 1 x)"

definition toNumber :: "rat \<Rightarrow> rat" where
  "toNumber d = round64 d"

subsection \<open>Numbers as text\<close>

text \<open>
  \<open>String(x)\<close>, which a template string applies to a number: the digits of the shortest
  decimal that reads back as \<open>x\<close>, written plainly between \<open>1e-6\<close> and \<open>1e21\<close> and
  with an exponent outside that range.
\<close>

fun decimal :: "nat \<Rightarrow> string" where
  "decimal n = (if n < 10 then [''0123456789'' ! n]
                else decimal (n div 10) @ [''0123456789'' ! (n mod 10)])"

declare decimal.simps [simp del]

fun fraction_digits :: "nat \<Rightarrow> rat \<Rightarrow> string" where
  "fraction_digits fuel f =
     (if fuel = 0 \<or> f = 0 then []
      else let t = f * 10; digit = nat \<lfloor>t\<rfloor>
           in (''0123456789'' ! digit) # fraction_digits (fuel - 1) (t - of_nat digit))"

declare fraction_digits.simps [simp del]

definition plain_decimal :: "rat \<Rightarrow> string" where
  "plain_decimal d =
     (let whole = nat \<lfloor>d\<rfloor>; f = d - of_nat whole
      in decimal whole @ (if f = 0 then [] else ''.'' @ fraction_digits 40 f))"

definition Number_toString :: "rat \<Rightarrow> string" where
  "Number_toString x =
     (let d = Big \<bar>x\<bar>;
          minus = (if x < 0 then ''-'' else [])
      in if d = 0 then ''0''
         else if 1 / 10 ^ 6 \<le> d \<and> d < 10 ^ 21 then minus @ plain_decimal d
         else let e = floor_log 2200 10 d
              in minus @ plain_decimal (d / pow_int 10 e) @ ''e''
                   @ (if e < 0 then ''-'' else ''+'') @ decimal (nat \<bar>e\<bar>))"

subsection \<open>Defaults and errors\<close>

text \<open>\<open>x || d\<close> on a number that may be \<open>undefined\<close>: \<open>undefined\<close> and \<open>0\<close> are falsy.\<close>

definition or_default :: "rat option \<Rightarrow> rat \<Rightarrow> rat" where
  "or_default x d = (case x of None \<Rightarrow> d | Some v \<Rightarrow> if v = 0 then d else v)"

text \<open>
  Thrown values. \<open>NetworkNeuronError message code\<close> is the class of \<open>core/types.js\<close>;
  \<open>Error\<close> and \<open>TypeError\<close> are the built-in errors raised by the runtime and by
  libraries. Every \<open>catch (error)\<close> of the source reads only \<open>error.message\<close>.
\<close>

datatype js_error =
    NetworkNeuronError string string
  | Error string
  | TypeError string

fun message :: "js_error \<Rightarrow> string" where
  "message (NetworkNeuronError m c) = m"
| "message (Error m) = m"
| "message (TypeError m) = m"

definition AuthenticationError :: "string \<Rightarrow> js_error" where
  "AuthenticationError m = NetworkNeuronError m ''AUTHENTICATION_ERROR''"

definition RouteNotFoundError :: "string \<Rightarrow> js_error" where
  "RouteNotFoundError destination =
     NetworkNeuronError (''No route found to '' @ destination) ''ROUTE_NOT_FOUND''"

text \<open>
  \<open>try { body } catch (error) { throw new NetworkNeuronError(`prefix${error.message}`, c) }\<close>:
  every public method of the source ends this way. State changes made before the throw stay.
\<close>

definition rethrow :: "string \<Rightarrow> string \<Rightarrow> (js_error + 'a) \<times> 's \<Rightarrow> (js_error + 'a) \<times> 's" where
  "rethrow prefix c r =
     (case fst r of
        Inl e \<Rightarrow> (Inl (NetworkNeuronError (prefix @ message e) c), snd r)
      | Inr v \<Rightarrow> (Inr v, snd r))"

section \<open>CryptoManager: signatures\<close>

text \<open>
  \<open>sign\<close> and \<open>verify\<close> of \<open>crypto/crypto.js\<close> call the RSA-SHA256 primitives of an
  external library. The primitive is idealised: a key pair is a number, a PEM string that
  parses is \<open>Some\<close> of its pair, a missing or malformed PEM is \<open>None\<close> (parsing throws),
  and a signature verifies exactly for the signed bytes under the matching pair.
\<close>

datatype signature = Signature nat string

definition sign :: "string \<Rightarrow> nat option \<Rightarrow> js_error + signature" where
  "sign data privateKeyPem =
     (case privateKeyPem of
        None \<Rightarrow> Inl (AuthenticationError (''Signing failed: '' @ ''Invalid PEM formatted message.''))
      | Some k \<Rightarrow> Inr (Signature k data))"

definition verify :: "string \<Rightarrow> signature \<Rightarrow> nat option \<Rightarrow> js_error + bool" where
  "verify data sg publicKeyPem =
     (case publicKeyPem of
        None \<Rightarrow> Inl (AuthenticationError
                 (''Signature verification failed: '' @ ''Invalid PEM formatted message.''))
      | Some k \<Rightarrow> (case sg of Signature k' d \<Rightarrow> Inr (k' = k \<and> d = data)))"

section \<open>IncentiveSystem\<close>

record config =
  rewardRate :: rat
  minStake :: rat
  maxRewardPerDay :: rat
  privateKey :: "nat option"
  publicKey :: "nat option"

record performance =
  uptime :: "rat option"
  averageLatency :: "rat option"
  reputation :: "rat option"

record tx_metadata =
  md_period :: string
  md_bandwidthProvided :: rat
  md_sessionsServed :: nat

text \<open>
  A transaction as \<open>recordTransaction\<close> stores it. Its \<open>id\<close>, sixteen random bytes that
  no method reads, is left out; \<open>timestamp\<close> is the clock value handed to the operation.
\<close>

record transaction =
  tx_type :: string
  tx_from :: string
  tx_to :: string
  tx_amount :: rat
  tx_timestamp :: nat
  tx_metadata :: "tx_metadata option"
  tx_signature :: signature

record reward =
  rw_nodeId :: string
  rw_amount :: rat
  rw_period :: string
  rw_bandwidthProvided :: rat
  rw_sessionsServed :: nat
  rw_stake :: rat
  rw_performance :: "(rat \<times> rat \<times> rat) option"
  rw_timestamp :: nat
  rw_reason :: "string option"

record incentive_state =
  balances :: "(string, rat) js_map"
  stakes :: "(string, rat) js_map"
  rewards :: "(string, reward) js_map"
  transactions :: "transaction list"
  nodePerformance :: "(string, performance) js_map"
  bandwidthProvided :: "(string, rat) js_map"
  sessionsServed :: "(string, nat) js_map"

record stake_result =
  sr_nodeId :: string
  sr_amount :: rat
  sr_totalStake :: rat
  sr_timestamp :: nat

record distribution =
  ds_period :: string
  ds_rewards :: "reward list"
  ds_totalDistributed :: rat
  ds_timestamp :: nat

definition getBalance :: "incentive_state \<Rightarrow> string \<Rightarrow> rat" where
  "getBalance s nodeId = or_default (Map_get (balances s) nodeId) 0"

definition getStake :: "incentive_state \<Rightarrow> string \<Rightarrow> rat" where
  "getStake s nodeId = or_default (Map_get (stakes s) nodeId) 0"

text \<open>\<open>slice(-10000)\<close> once the log is longer than 10000 entries.\<close>

definition recordTransaction :: "incentive_state \<Rightarrow> transaction \<Rightarrow> incentive_state" where
  "recordTransaction s tx =
     (let log = transactions s @ [tx]
      in s\<lparr>transactions := (if length log > 10000 then drop (length log - 10000) log else log)\<rparr>)"

text \<open>
  \<open>stakeTokens\<close>. \<open>str\<close> is the conversion of a number to text that a template string
  applies (\<open>Number_toString\<close> above); the methods take it as a parameter. The balance and the stake are written before the signature is
  made, so a failing \<open>sign\<close> leaves them changed.
\<close>

definition stakeTokens_body ::
  "(rat \<Rightarrow> string) \<Rightarrow> config \<Rightarrow> incentive_state \<Rightarrow> nat \<Rightarrow> string \<Rightarrow> rat
     \<Rightarrow> (js_error + stake_result) \<times> incentive_state" where
  "stakeTokens_body str cfg s now nodeId amount =
     (let currentBalance = getBalance s nodeId;
          currentStake = getStake s nodeId
      in if currentBalance < amount then
           (Inl (NetworkNeuronError ''Insufficient balance for staking'' ''INSUFFICIENT_BALANCE''), s)
         else if amount < minStake cfg then
           (Inl (NetworkNeuronError (''Minimum stake required: '' @ str (minStake cfg))
                   ''MIN_STAKE_NOT_MET''), s)
         else
           let s1 = s\<lparr>balances := Map_set (balances s) nodeId (js_sub currentBalance amount)\<rparr>;
               s2 = s1\<lparr>stakes := Map_set (stakes s1) nodeId (js_add (or_default (Some currentStake) 0) amount)\<rparr>
           in case sign (nodeId @ '':'' @ str amount @ '':stake'') (privateKey cfg) of
                Inl e \<Rightarrow> (Inl e, s2)
              | Inr sg \<Rightarrow>
                  let s3 = recordTransaction s2
                             \<lparr>tx_type = ''stake'', tx_from = nodeId, tx_to = ''stake_pool'',
                              tx_amount = amount, tx_timestamp = now, tx_metadata = None,
                              tx_signature = sg\<rparr>
                  in (Inr \<lparr>sr_nodeId = nodeId, sr_amount = amount,
                           sr_totalStake = getStake s3 nodeId, sr_timestamp = now\<rparr>, s3))"

definition stakeTokens ::
  "(rat \<Rightarrow> string) \<Rightarrow> config \<Rightarrow> incentive_state \<Rightarrow> nat \<Rightarrow> string \<Rightarrow> rat
     \<Rightarrow> (js_error + stake_result) \<times> incentive_state" where
  "stakeTokens str cfg s now nodeId amount =
     rethrow ''Staking failed: '' ''STAKING_ERROR'' (stakeTokens_body str cfg s now nodeId amount)"

definition unstakeTokens_body ::
  "(rat \<Rightarrow> string) \<Rightarrow> config \<Rightarrow> incentive_state \<Rightarrow> nat \<Rightarrow> string \<Rightarrow> rat
     \<Rightarrow> (js_error + stake_result) \<times> incentive_state" where
  "unstakeTokens_body str cfg s now nodeId amount =
     (let currentStake = getStake s nodeId
      in if currentStake < amount then
           (Inl (NetworkNeuronError ''Insufficient stake to unstake'' ''INSUFFICIENT_STAKE''), s)
         else
           let s1 = s\<lparr>balances := Map_set (balances s) nodeId (js_add (getBalance s nodeId) amount)\<rparr>;
               s2 = s1\<lparr>stakes := Map_set (stakes s1) nodeId (js_sub currentStake amount)\<rparr>
           in case sign (nodeId @ '':'' @ str amount @ '':unstake'') (privateKey cfg) of
                Inl e \<Rightarrow> (Inl e, s2)
              | Inr sg \<Rightarrow>
                  let s3 = recordTransaction s2
                             \<lparr>tx_type = ''unstake'', tx_from = ''stake_pool'', tx_to = nodeId,
                              tx_amount = amount, tx_timestamp = now, tx_metadata = None,
                              tx_signature = sg\<rparr>
                  in (Inr \<lparr>sr_nodeId = nodeId, sr_amount = amount,
                           sr_totalStake = getStake s3 nodeId, sr_timestamp = now\<rparr>, s3))"

definition unstakeTokens ::
  "(rat \<Rightarrow> string) \<Rightarrow> config \<Rightarrow> incentive_state \<Rightarrow> nat \<Rightarrow> string \<Rightarrow> rat
     \<Rightarrow> (js_error + stake_result) \<times> incentive_state" where
  "unstakeTokens str cfg s now nodeId amount =
     rethrow ''Unstaking failed: '' ''UNSTAKING_ERROR'' (unstakeTokens_body str cfg s now nodeId amount)"

text \<open>
  \<open>calculateRewards\<close>. The stake multiplier and the two bonuses are computed on numbers;
  the product is computed by the decimal library, which converts each factor with
  \<open>new Big\<close>, and \<open>toNumber\<close> turns the product back into a number. The stake
  multiplier divides by \<open>minStake\<close>: with \<open>minStake = 0\<close> the quotient is \<open>Infinity\<close> for
  a positive stake, so that \<open>Math.min\<close> returns 2, and \<open>NaN\<close> for a zero stake, which
  the decimal library refuses with an exception.
\<close>

definition stakeMultiplier :: "rat \<Rightarrow> rat \<Rightarrow> js_error + rat" where
  "stakeMultiplier stake minStk =
     (if minStk = 0 then
        (if stake = 0 then Inl (Error ''[big.js] Invalid number'') else Inr 2)
      else Inr (min (js_add 1 (js_mul (js_div stake minStk) (1 / 2))) 2))"

definition calculateRewards_body ::
  "config \<Rightarrow> incentive_state \<Rightarrow> nat \<Rightarrow> string \<Rightarrow> string \<Rightarrow> js_error + reward" where
  "calculateRewards_body cfg s now nodeId period =
     (let perf = (case Map_get (nodePerformance s) nodeId of
                    None \<Rightarrow> \<lparr>uptime = None, averageLatency = None, reputation = None\<rparr>
                  | Some p \<Rightarrow> p);
          bandwidth = or_default (Map_get (bandwidthProvided s) nodeId) 0;
          sessions = (case Map_get (sessionsServed s) nodeId of None \<Rightarrow> 0 | Some n \<Rightarrow> n);
          stake = or_default (Some (getStake s nodeId)) 0
      in if stake < minStake cfg then
           Inr \<lparr>rw_nodeId = nodeId, rw_amount = 0, rw_period = period,
                rw_bandwidthProvided = 0, rw_sessionsServed = 0, rw_stake = stake,
                rw_performance = None, rw_timestamp = now,
                rw_reason = Some ''insufficient_stake''\<rparr>
         else
           let bandwidthReward = Big bandwidth * Big (rewardRate cfg)
           in case stakeMultiplier stake (minStake cfg) of
                Inl e \<Rightarrow> Inl e
              | Inr mult \<Rightarrow>
                  let uptimeBonus = js_div (or_default (uptime perf) 0) 100;
                      latencyBonus = max 0 (js_sub 1 (js_div (or_default (averageLatency perf) 0) 1000));
                      totalReward = bandwidthReward * Big mult * Big uptimeBonus * Big latencyBonus
                                      * Big (if sessions = 0 then 1 else of_nat sessions);
                      cappedReward = min (toNumber totalReward) (maxRewardPerDay cfg)
                  in Inr \<lparr>rw_nodeId = nodeId, rw_amount = cappedReward, rw_period = period,
                          rw_bandwidthProvided = bandwidth, rw_sessionsServed = sessions,
                          rw_stake = stake,
                          rw_performance = Some (or_default (uptime perf) 0,
                                                 or_default (averageLatency perf) 0,
                                                 or_default (reputation perf) 0),
                          rw_timestamp = now, rw_reason = None\<rparr>)"

definition calculateRewards ::
  "config \<Rightarrow> incentive_state \<Rightarrow> nat \<Rightarrow> string \<Rightarrow> string \<Rightarrow> js_error + reward" where
  "calculateRewards cfg s now nodeId period =
     (case calculateRewards_body cfg s now nodeId period of
        Inl e \<Rightarrow> Inl (NetworkNeuronError (''Reward calculation failed: '' @ message e)
                       ''REWARD_CALCULATION_ERROR'')
      | Inr r \<Rightarrow> Inr r)"

text \<open>
  \<open>distributeReward\<close>: returns without paying when the pool does not cover the amount.
  The reward record is stored under the key \<open>`${nodeId}:${Date.now()}`\<close>.
\<close>

definition distributeReward_body ::
  "(rat \<Rightarrow> string) \<Rightarrow> config \<Rightarrow> incentive_state \<Rightarrow> nat \<Rightarrow> reward
     \<Rightarrow> (js_error + unit) \<times> incentive_state" where
  "distributeReward_body str cfg s now rw =
     (let rewardPoolBalance = getBalance s ''reward_pool''
      in if rewardPoolBalance < rw_amount rw then (Inr (), s)
         else
           let s1 = s\<lparr>balances := Map_set (balances s) ''reward_pool''
                                     (js_sub rewardPoolBalance (rw_amount rw))\<rparr>;
               s2 = s1\<lparr>balances := Map_set (balances s1) (rw_nodeId rw)
                                      (js_add (getBalance s1 (rw_nodeId rw)) (rw_amount rw))\<rparr>
           in case sign (''reward:'' @ rw_nodeId rw @ '':'' @ str (rw_amount rw)) (privateKey cfg) of
                Inl e \<Rightarrow> (Inl e, s2)
              | Inr sg \<Rightarrow>
                  let s3 = recordTransaction s2
                             \<lparr>tx_type = ''reward'', tx_from = ''reward_pool'', tx_to = rw_nodeId rw,
                              tx_amount = rw_amount rw, tx_timestamp = now,
                              tx_metadata = Some \<lparr>md_period = rw_period rw,
                                                  md_bandwidthProvided = rw_bandwidthProvided rw,
                                                  md_sessionsServed = rw_sessionsServed rw\<rparr>,
                              tx_signature = sg\<rparr>
                  in (Inr (), s3\<lparr>rewards := Map_set (rewards s3)
                                               (rw_nodeId rw @ '':'' @ str (of_nat now)) rw\<rparr>))"

definition distributeReward ::
  "(rat \<Rightarrow> string) \<Rightarrow> config \<Rightarrow> incentive_state \<Rightarrow> nat \<Rightarrow> reward
     \<Rightarrow> (js_error + unit) \<times> incentive_state" where
  "distributeReward str cfg s now rw =
     rethrow ''Individual reward distribution failed: '' ''INDIVIDUAL_REWARD_ERROR''
       (distributeReward_body str cfg s now rw)"

text \<open>First loop of \<open>distributeRewards\<close>: one reward per entry of \<open>stakes\<close> at or above the minimum.\<close>

fun collectRewards ::
  "config \<Rightarrow> incentive_state \<Rightarrow> nat \<Rightarrow> string \<Rightarrow> (string \<times> rat) list \<Rightarrow> js_error + reward list" where
  "collectRewards cfg s now period [] = Inr []"
| "collectRewards cfg s now period ((nodeId, stake) # rest) =
     (if stake \<ge> minStake cfg then
        (case calculateRewards cfg s now nodeId period of
           Inl e \<Rightarrow> Inl e
         | Inr rw \<Rightarrow> (case collectRewards cfg s now period rest of
                        Inl e \<Rightarrow> Inl e
                      | Inr rws \<Rightarrow> Inr (rw # rws)))
      else collectRewards cfg s now period rest)"

text \<open>Second loop: pay every reward with a positive amount, stopping at the first exception.\<close>

fun payRewards ::
  "(rat \<Rightarrow> string) \<Rightarrow> config \<Rightarrow> incentive_state \<Rightarrow> nat \<Rightarrow> reward list
     \<Rightarrow> (js_error + unit) \<times> incentive_state" where
  "payRewards str cfg s now [] = (Inr (), s)"
| "payRewards str cfg s now (rw # rest) =
     (if rw_amount rw > 0 then
        (case distributeReward str cfg s now rw of
           (Inl e, s') \<Rightarrow> (Inl e, s')
         | (Inr u, s') \<Rightarrow> payRewards str cfg s' now rest)
      else payRewards str cfg s now rest)"

definition distributeRewards_body ::
  "(rat \<Rightarrow> string) \<Rightarrow> config \<Rightarrow> incentive_state \<Rightarrow> nat \<Rightarrow> string
     \<Rightarrow> (js_error + distribution) \<times> incentive_state" where
  "distributeRewards_body str cfg s now period =
     (let totalRewardPool = getBalance s ''reward_pool''
      in if totalRewardPool \<le> 0 then
           (Inl (NetworkNeuronError ''Insufficient reward pool'' ''INSUFFICIENT_REWARD_POOL''), s)
         else
           case collectRewards cfg s now period (stakes s) of
             Inl e \<Rightarrow> (Inl e, s)
           | Inr rws \<Rightarrow>
               (case payRewards str cfg s now rws of
                  (Inl e, s') \<Rightarrow> (Inl e, s')
                | (Inr u, s') \<Rightarrow>
                    (Inr \<lparr>ds_period = period, ds_rewards = rws,
                          ds_totalDistributed = foldl (\<lambda>sum r. js_add sum (rw_amount r)) 0 rws,
                          ds_timestamp = now\<rparr>, s')))"

definition distributeRewards ::
  "(rat \<Rightarrow> string) \<Rightarrow> config \<Rightarrow> incentive_state \<Rightarrow> nat \<Rightarrow> string
     \<Rightarrow> (js_error + distribution) \<times> incentive_state" where
  "distributeRewards str cfg s now period =
     rethrow ''Reward distribution failed: '' ''REWARD_DISTRIBUTION_ERROR''
       (distributeRewards_body str cfg s now period)"

definition recordBandwidthProvided :: "incentive_state \<Rightarrow> string \<Rightarrow> rat \<Rightarrow> incentive_state" where
  "recordBandwidthProvided s nodeId bytes =
     (let currentBandwidth = or_default (Map_get (bandwidthProvided s) nodeId) 0
      in s\<lparr>bandwidthProvided := Map_set (bandwidthProvided s) nodeId (js_add currentBandwidth bytes)\<rparr>)"

text \<open>
  The session counter starts at 0 and only \<open>recordSessionServed\<close> writes it, so it is a
  natural number; the increment is the addition of numbers.
\<close>

definition recordSessionServed :: "incentive_state \<Rightarrow> string \<Rightarrow> incentive_state" where
  "recordSessionServed s nodeId =
     (let currentSessions = (case Map_get (sessionsServed s) nodeId of None \<Rightarrow> 0 | Some n \<Rightarrow> n)
      in s\<lparr>sessionsServed := Map_set (sessionsServed s) nodeId
                                 (nat \<lfloor>js_add (of_nat currentSessions) 1\<rfloor>)\<rparr>)"

text \<open>\<open>validateTransaction\<close>: any exception of \<open>verify\<close> is turned into \<open>false\<close>.\<close>

definition validateTransaction :: "(rat \<Rightarrow> string) \<Rightarrow> config \<Rightarrow> transaction \<Rightarrow> bool" where
  "validateTransaction str cfg tx =
     (let msg = tx_from tx @ '':'' @ tx_to tx @ '':'' @ str (tx_amount tx) @ '':'' @ tx_type tx
      in case verify msg (tx_signature tx) (publicKey cfg) of
           Inl e \<Rightarrow> False
         | Inr b \<Rightarrow> b)"

section \<open>PathOptimizer\<close>

record bandwidthInfo =
  download :: "rat option"
  latency :: "rat option"
  bw_uptime :: "rat option"

record networkNode =
  node_id :: string
  bandwidth :: "bandwidthInfo option"
  node_reputation :: "rat option"
  region :: string
  isActive :: bool

record routeRequirements =
  minBandwidth :: "rat option"
  maxLatency :: "rat option"
  regions :: "string list option"
  encryption :: "bool option"
  algorithm :: "string option"

record path =
  p_nodes :: "string list"
  p_latency :: rat
  p_bandwidth :: rat
  p_cost :: rat

text \<open>\<open>node.bandwidth?.download\<close>, \<open>node.bandwidth?.latency\<close>, \<open>node.bandwidth?.uptime\<close>.\<close>

definition node_download :: "networkNode \<Rightarrow> rat option" where
  "node_download node = (case bandwidth node of None \<Rightarrow> None | Some b \<Rightarrow> download b)"

definition node_latency :: "networkNode \<Rightarrow> rat option" where
  "node_latency node = (case bandwidth node of None \<Rightarrow> None | Some b \<Rightarrow> latency b)"

definition node_uptime :: "networkNode \<Rightarrow> rat option" where
  "node_uptime node = (case bandwidth node of None \<Rightarrow> None | Some b \<Rightarrow> bw_uptime b)"

text \<open>The object every algorithm returns for the node it picked.\<close>

definition singleHop :: "networkNode \<Rightarrow> path" where
  "singleHop bestNode =
     \<lparr>p_nodes = [node_id bestNode],
      p_latency = or_default (node_latency bestNode) 100,
      p_bandwidth = or_default (node_download bestNode) 10,
      p_cost = 1\<rparr>"

text \<open>
  \<open>Array.prototype.sort\<close> with a comparator \<open>(a, b) => key(a) - key(b)\<close> is a stable
  ascending sort on the key, \<open>(a, b) => key(b) - key(a)\<close> a stable descending one: the
  difference of two doubles is rounded, but it is zero only for equal doubles and keeps the
  sign of the exact difference. Reading element 0 of an empty array gives \<open>undefined\<close>,
  whose property access throws.
\<close>

definition findShortestPath :: "networkNode list \<Rightarrow> js_error + path" where
  "findShortestPath availableNodes =
     (case availableNodes of
        [] \<Rightarrow> Inl (TypeError ''Reduce of empty array with no initial value'')
      | first # rest \<Rightarrow>
          Inr (singleHop
                 (foldl (\<lambda>best current.
                           let bestScore = js_sub (or_default (node_download best) 0)
                                             (or_default (node_latency best) 0);
                               currentScore = js_sub (or_default (node_download current) 0)
                                                (or_default (node_latency current) 0)
                           in if currentScore > bestScore then current else best)
                    first rest)))"

definition findLowestLatency :: "networkNode list \<Rightarrow> js_error + path" where
  "findLowestLatency availableNodes =
     (case sort_key (\<lambda>n. or_default (node_latency n) 0) availableNodes of
        [] \<Rightarrow> Inl (TypeError ''Cannot read properties of undefined (reading 'id')'')
      | first # rest \<Rightarrow> Inr (singleHop first))"

definition findHighestBandwidth :: "networkNode list \<Rightarrow> js_error + path" where
  "findHighestBandwidth availableNodes =
     (case sort_key (\<lambda>n. - or_default (node_download n) 0) availableNodes of
        [] \<Rightarrow> Inl (TypeError ''Cannot read properties of undefined (reading 'id')'')
      | first # rest \<Rightarrow> Inr (singleHop first))"

text \<open>
  The score of \<open>findBalancedPath\<close>. The literals \<open>0.4\<close>, \<open>0.3\<close>, \<open>0.2\<close> and \<open>0.1\<close>
  are the doubles nearest to these decimals, and the sum is taken from left to right.
\<close>

definition totalScore :: "networkNode \<Rightarrow> rat" where
  "totalScore node =
     (let bandwidthScore = js_div (or_default (node_download node) 0) 100;
          latencyScore = js_sub 1 (js_div (or_default (node_latency node) 0) 1000);
          reputationScore = js_div (or_default (node_reputation node) 0) 100;
          uptimeScore = js_div (or_default (node_uptime node) 0) 100
      in js_add
           (js_add
              (js_add (js_mul bandwidthScore (round64 (4 / 10)))
                      (js_mul latencyScore (round64 (3 / 10))))
              (js_mul reputationScore (round64 (2 / 10))))
           (js_mul uptimeScore (round64 (1 / 10))))"

definition findBalancedPath :: "networkNode list \<Rightarrow> js_error + path" where
  "findBalancedPath availableNodes =
     (let scoredNodes = map (\<lambda>node. (node, totalScore node)) availableNodes
      in case sort_key (\<lambda>sn. - snd sn) scoredNodes of
           [] \<Rightarrow> Inl (TypeError ''Cannot read properties of undefined (reading 'node')'')
         | first # rest \<Rightarrow> Inr (singleHop (fst first)))"

text \<open>
  \<open>findOptimalPath\<close> reads the property of an object literal named by the algorithm and
  calls it as a plain function, with \<open>this\<close> undefined. Besides the four own keys the
  lookup finds what the object inherits from \<open>Object.prototype\<close>. Of these,
  \<open>toString\<close> returns a text and \<open>constructor\<close> an object wrapping the destination,
  both without any of the fields of a path; \<open>isPrototypeOf\<close> returns \<open>false\<close> for a
  destination that is a text; \<open>__proto__\<close> is an object, and calling it throws; the
  others throw when they convert their undefined \<open>this\<close> to an object. Any other name
  finds nothing.
\<close>

datatype optimizer_value = PathObject path | FieldlessValue | FalseValue

definition not_callable :: "string list" where
  "not_callable = [''__proto__'']"

definition throwing_on_undefined_this :: "string list" where
  "throwing_on_undefined_this =
     [''toLocaleString'', ''valueOf'', ''hasOwnProperty'', ''propertyIsEnumerable'',
      ''__defineGetter__'', ''__defineSetter__'', ''__lookupGetter__'', ''__lookupSetter__'']"

definition as_path :: "js_error + path \<Rightarrow> js_error + optimizer_value" where
  "as_path r = (case r of Inl e \<Rightarrow> Inl e | Inr p \<Rightarrow> Inr (PathObject p))"

definition findOptimalPath ::
  "networkNode list \<Rightarrow> routeRequirements \<Rightarrow> js_error + optimizer_value" where
  "findOptimalPath availableNodes requirements =
     (let alg = (case algorithm requirements of
                   None \<Rightarrow> ''balanced''
                 | Some a \<Rightarrow> if a = [] then ''balanced'' else a)
      in if alg = ''shortestPath'' then as_path (findShortestPath availableNodes)
         else if alg = ''lowestLatency'' then as_path (findLowestLatency availableNodes)
         else if alg = ''highestBandwidth'' then as_path (findHighestBandwidth availableNodes)
         else if alg = ''balanced'' then as_path (findBalancedPath availableNodes)
         else if alg = ''toString'' \<or> alg = ''constructor'' then Inr FieldlessValue
         else if alg = ''isPrototypeOf'' then Inr FalseValue
         else if alg \<in> set not_callable then Inl (TypeError ''optimizer is not a function'')
         else if alg \<in> set throwing_on_undefined_this
           then Inl (TypeError ''Cannot convert undefined or null to object'')
         else Inl (NetworkNeuronError (''Unknown optimization algorithm: '' @ alg)
                     ''UNKNOWN_ALGORITHM''))"

section \<open>TrafficRouter\<close>

text \<open>
  A route as \<open>findRoute\<close> builds it. The four fields copied from the value the optimizer
  returned are \<open>undefined\<close> when that value has no such fields.
\<close>

record route =
  rt_id :: string
  rt_nodes :: "string list option"
  rt_latency :: "rat option"
  rt_bandwidth :: "rat option"
  rt_cost :: "rat option"
  rt_encrypted :: bool
  rt_expiresAt :: nat

record clientSession =
  cs_id :: string
  cs_clientId :: string
  cs_nodeId :: "string option"
  cs_startTime :: nat
  cs_bytesTransferred :: rat
  cs_isActive :: bool
  cs_route :: route

text \<open>
  The three tables of the router and the two limits its constructor sets
  (\<open>routeTimeout = 300000\<close>, \<open>maxCacheSize = 1000\<close>). A session holds the route object it
  was created with; no modelled method changes a field of a stored route, so the session
  carries the route by value.
\<close>

record router =
  activeRoutes :: "(string, route) js_map"
  clientSessions :: "(string, clientSession) js_map"
  routeCache :: "(string, route) js_map"
  routeTimeout :: nat
  maxCacheSize :: nat

definition new_router :: router where
  "new_router = \<lparr>activeRoutes = [], clientSessions = [], routeCache = [],
                  routeTimeout = 300000, maxCacheSize = 1000\<rparr>"

text \<open>
  \<open>getAvailableNodes\<close> filters the nodes the network manager has discovered. A requirement
  that is \<open>undefined\<close> or \<open>0\<close> is skipped; a comparison with an \<open>undefined\<close> number is
  false; \<open>node.bandwidth.download\<close> throws when the node has no bandwidth record.
\<close>

definition bandwidthTooLow :: "routeRequirements \<Rightarrow> networkNode \<Rightarrow> js_error + bool" where
  "bandwidthTooLow requirements node =
     (case minBandwidth requirements of
        None \<Rightarrow> Inr False
      | Some mb \<Rightarrow>
          if mb = 0 then Inr False
          else (case bandwidth node of
                  None \<Rightarrow> Inl (TypeError ''Cannot read properties of undefined (reading 'download')'')
                | Some b \<Rightarrow> Inr (case download b of None \<Rightarrow> False | Some d \<Rightarrow> d < mb)))"

definition latencyTooHigh :: "routeRequirements \<Rightarrow> networkNode \<Rightarrow> js_error + bool" where
  "latencyTooHigh requirements node =
     (case maxLatency requirements of
        None \<Rightarrow> Inr False
      | Some ml \<Rightarrow>
          if ml = 0 then Inr False
          else (case bandwidth node of
                  None \<Rightarrow> Inl (TypeError ''Cannot read properties of undefined (reading 'latency')'')
                | Some b \<Rightarrow> Inr (case latency b of None \<Rightarrow> False | Some l \<Rightarrow> l > ml)))"

definition nodeAvailable :: "routeRequirements \<Rightarrow> networkNode \<Rightarrow> js_error + bool" where
  "nodeAvailable requirements node =
     (if \<not> isActive node then Inr False
      else case bandwidthTooLow requirements node of
             Inl e \<Rightarrow> Inl e
           | Inr low \<Rightarrow>
               if low then Inr False
               else (case latencyTooHigh requirements node of
                       Inl e \<Rightarrow> Inl e
                     | Inr high \<Rightarrow>
                         if high then Inr False
                         else (case regions requirements of
                                 None \<Rightarrow> Inr True
                               | Some rs \<Rightarrow> Inr (region node \<in> set rs))))"

fun getAvailableNodes :: "networkNode list \<Rightarrow> routeRequirements \<Rightarrow> js_error + networkNode list" where
  "getAvailableNodes [] requirements = Inr []"
| "getAvailableNodes (node # rest) requirements =
     (case nodeAvailable requirements node of
        Inl e \<Rightarrow> Inl e
      | Inr keep \<Rightarrow>
          (case getAvailableNodes rest requirements of
             Inl e \<Rightarrow> Inl e
           | Inr nodes \<Rightarrow> Inr (if keep then node # nodes else nodes)))"

text \<open>
  \<open>generateCacheKey\<close>; \<open>hashReq\<close> stands for the SHA-256 hex digest of
  \<open>JSON.stringify(requirements)\<close> and is a parameter.
\<close>

definition generateCacheKey :: "(routeRequirements \<Rightarrow> string) \<Rightarrow> string \<Rightarrow> routeRequirements \<Rightarrow> string" where
  "generateCacheKey hashReq destination requirements = destination @ '':'' @ hashReq requirements"

text \<open>\<open>cacheRoute\<close>: at the size limit, the first key in iteration order is deleted.\<close>

definition cacheRoute :: "router \<Rightarrow> string \<Rightarrow> route \<Rightarrow> router" where
  "cacheRoute s key rt =
     (let s1 = (if length (routeCache s) \<ge> maxCacheSize s then
                  (case routeCache s of
                     [] \<Rightarrow> s
                   | first # rest \<Rightarrow> s\<lparr>routeCache := Map_delete (routeCache s) (fst first)\<rparr>)
                else s)
      in s1\<lparr>routeCache := Map_set (routeCache s1) key rt\<rparr>)"

text \<open>
  \<open>findRoute\<close>. \<open>discovered\<close> is what \<open>networkManager.getDiscoveredNodes()\<close> returns,
  \<open>now\<close> the clock in milliseconds and \<open>newId\<close> the random string drawn for the route id.
  \<open>findRoute_miss\<close> is the method from the comment "Get available nodes" on, reached when
  the cache has no entry for the key or the entry has expired and was deleted.
\<close>

definition path_field :: "(path \<Rightarrow> 'a) \<Rightarrow> optimizer_value \<Rightarrow> 'a option" where
  "path_field field v = (case v of PathObject p \<Rightarrow> Some (field p) | _ \<Rightarrow> None)"

definition findRoute_miss ::
  "networkNode list \<Rightarrow> router \<Rightarrow> nat \<Rightarrow> string \<Rightarrow> string \<Rightarrow> string
     \<Rightarrow> routeRequirements \<Rightarrow> (js_error + route) \<times> router" where
  "findRoute_miss discovered s now newId cacheKey destination requirements =
     (case getAvailableNodes discovered requirements of
        Inl e \<Rightarrow> (Inl e, s)
      | Inr availableNodes \<Rightarrow>
          if length availableNodes = 0 then (Inl (RouteNotFoundError destination), s)
          else
            (case findOptimalPath availableNodes requirements of
               Inl e \<Rightarrow> (Inl e, s)
             | Inr FalseValue \<Rightarrow> (Inl (RouteNotFoundError destination), s)
             | Inr optimalPath \<Rightarrow>
                 let rt = \<lparr>rt_id = newId,
                           rt_nodes = path_field p_nodes optimalPath,
                           rt_latency = path_field p_latency optimalPath,
                           rt_bandwidth = path_field p_bandwidth optimalPath,
                           rt_cost = path_field p_cost optimalPath,
                           rt_encrypted = (encryption requirements \<noteq> Some False),
                           rt_expiresAt = now + routeTimeout s\<rparr>;
                     s1 = cacheRoute s cacheKey rt;
                     s2 = s1\<lparr>activeRoutes := Map_set (activeRoutes s1) (rt_id rt) rt\<rparr>
                 in (Inr rt, s2)))"

definition findRoute_body ::
  "(routeRequirements \<Rightarrow> string) \<Rightarrow> networkNode list \<Rightarrow> router \<Rightarrow> nat \<Rightarrow> string
     \<Rightarrow> string \<Rightarrow> routeRequirements \<Rightarrow> (js_error + route) \<times> router" where
  "findRoute_body hashReq discovered s now newId destination requirements =
     (let cacheKey = generateCacheKey hashReq destination requirements
      in case Map_get (routeCache s) cacheKey of
           Some cachedRoute \<Rightarrow>
             if rt_expiresAt cachedRoute > now then (Inr cachedRoute, s)
             else findRoute_miss discovered
                    (s\<lparr>routeCache := Map_delete (routeCache s) cacheKey\<rparr>)
                    now newId cacheKey destination requirements
         | None \<Rightarrow> findRoute_miss discovered s now newId cacheKey destination requirements)"

definition findRoute ::
  "(routeRequirements \<Rightarrow> string) \<Rightarrow> networkNode list \<Rightarrow> router \<Rightarrow> nat \<Rightarrow> string
     \<Rightarrow> string \<Rightarrow> routeRequirements \<Rightarrow> (js_error + route) \<times> router" where
  "findRoute hashReq discovered s now newId destination requirements =
     rethrow ''Route finding failed: '' ''ROUTE_FINDING_ERROR''
       (findRoute_body hashReq discovered s now newId destination requirements)"

text \<open>
  \<open>createSession\<close> reads \<open>route.nodes[0]\<close>, which throws on a route without nodes and is
  \<open>undefined\<close> on an empty hop list; the route is cached and active by then.
\<close>

definition createSession ::
  "(routeRequirements \<Rightarrow> string) \<Rightarrow> networkNode list \<Rightarrow> router \<Rightarrow> nat \<Rightarrow> string \<Rightarrow> string
     \<Rightarrow> string \<Rightarrow> routeRequirements \<Rightarrow> (js_error + clientSession) \<times> router" where
  "createSession hashReq discovered s now newRouteId newSessionId clientId requirements =
     rethrow ''Session creation failed: '' ''SESSION_CREATION_ERROR''
       (case findRoute hashReq discovered s now newRouteId clientId requirements of
          (Inl e, s') \<Rightarrow> (Inl e, s')
        | (Inr rt, s') \<Rightarrow>
            (case rt_nodes rt of
               None \<Rightarrow> (Inl (TypeError ''Cannot read properties of undefined (reading '0')''), s')
             | Some nodes \<Rightarrow>
                 let session = \<lparr>cs_id = newSessionId, cs_clientId = clientId,
                                cs_nodeId = (case nodes of [] \<Rightarrow> None | n # ns \<Rightarrow> Some n),
                                cs_startTime = now, cs_bytesTransferred = 0, cs_isActive = True,
                                cs_route = rt\<rparr>
                 in (Inr session,
                     s'\<lparr>clientSessions := Map_set (clientSessions s') (cs_id session) session\<rparr>)))"

definition cleanupRoute :: "router \<Rightarrow> nat \<Rightarrow> string \<Rightarrow> router" where
  "cleanupRoute s now routeId =
     (case Map_get (activeRoutes s) routeId of
        None \<Rightarrow> s
      | Some rt \<Rightarrow>
          if rt_expiresAt rt < now then s\<lparr>activeRoutes := Map_delete (activeRoutes s) routeId\<rparr>
          else s)"

text \<open>
  \<open>closeSession\<close>: the session object is marked inactive and dropped from the table, so
  the table no longer holds it; an unknown id falls through the \<open>if\<close>.
\<close>

definition closeSession :: "router \<Rightarrow> nat \<Rightarrow> string \<Rightarrow> router" where
  "closeSession s now sessionId =
     (case Map_get (clientSessions s) sessionId of
        None \<Rightarrow> s
      | Some session \<Rightarrow>
          cleanupRoute (s\<lparr>clientSessions := Map_delete (clientSessions s) sessionId\<rparr>) now
            (rt_id (cs_route session)))"

text \<open>\<open>route.nodes.includes(peerId)\<close> throws on a route without nodes.\<close>

definition nodes_include :: "route \<Rightarrow> string \<Rightarrow> js_error + bool" where
  "nodes_include rt peerId =
     (case rt_nodes rt of
        None \<Rightarrow> Inl (TypeError ''Cannot read properties of undefined (reading 'includes')'')
      | Some nodes \<Rightarrow> Inr (peerId \<in> set nodes))"

text \<open>
  \<open>handlePeerDisconnection\<close>. The first loop collects the ids of the routes through the
  peer, and the routes are deleted after it; an exception in it leaves every table as it
  was. The second loop iterates the session table while \<open>closeSession\<close> deletes the entry
  being visited, which visits every entry present at the start of the loop. The route cache
  is not read or written.
\<close>

fun routesToRemove :: "string \<Rightarrow> (string \<times> route) list \<Rightarrow> js_error + string list" where
  "routesToRemove peerId [] = Inr []"
| "routesToRemove peerId (entry # rest) =
     (case nodes_include (snd entry) peerId of
        Inl e \<Rightarrow> Inl e
      | Inr hit \<Rightarrow>
          (case routesToRemove peerId rest of
             Inl e \<Rightarrow> Inl e
           | Inr ids \<Rightarrow> Inr (if hit then fst entry # ids else ids)))"

fun closeSessionsUsing ::
  "string \<Rightarrow> nat \<Rightarrow> (string \<times> clientSession) list \<Rightarrow> router \<Rightarrow> (js_error + unit) \<times> router" where
  "closeSessionsUsing peerId now [] s = (Inr (), s)"
| "closeSessionsUsing peerId now (entry # rest) s =
     (case nodes_include (cs_route (snd entry)) peerId of
        Inl e \<Rightarrow> (Inl e, s)
      | Inr hit \<Rightarrow>
          closeSessionsUsing peerId now rest (if hit then closeSession s now (fst entry) else s))"

definition handlePeerDisconnection :: "router \<Rightarrow> nat \<Rightarrow> string \<Rightarrow> (js_error + unit) \<times> router" where
  "handlePeerDisconnection s now peerId =
     (case routesToRemove peerId (activeRoutes s) of
        Inl e \<Rightarrow> (Inl e, s)
      | Inr ids \<Rightarrow>
          let s1 = fold (\<lambda>routeId st. st\<lparr>activeRoutes := Map_delete (activeRoutes st) routeId\<rparr>)
                     ids s
          in closeSessionsUsing peerId now (clientSessions s1) s1)"

text \<open>
  \<open>invalidateRouteCache\<close>, which \<open>updateNodeBandwidth\<close> calls for the peer of a bandwidth
  report: it deletes every cache entry whose route goes through the node.
\<close>

definition invalidateRouteCache :: "router \<Rightarrow> string \<Rightarrow> (js_error + unit) \<times> router" where
  "invalidateRouteCache s nodeId =
     (case routesToRemove nodeId (routeCache s) of
        Inl e \<Rightarrow> (Inl e, s)
      | Inr keysToDelete \<Rightarrow>
          (Inr (), fold (\<lambda>key st. st\<lparr>routeCache := Map_delete (routeCache st) key\<rparr>)
                     keysToDelete s))"

section \<open>Concrete configurations\<close>

text \<open>
  A configuration with reward rate 0.1, minimum stake 1000 and a daily maximum of 1000.
  A ledger with a reward pool of 10000 and a node \<open>X\<close> holding 10000, with 100 units
  forwarded, 5 sessions served, uptime 100 and average latency 50; and the same ledger
  after \<open>X\<close> has staked 5000.
\<close>

definition example_config :: config where
  "example_config = \<lparr>rewardRate = round64 (1 / 10), minStake = 1000, maxRewardPerDay = 1000,
                      privateKey = Some 1, publicKey = Some 1\<rparr>"

definition example_ledger :: incentive_state where
  "example_ledger =
     \<lparr>balances = [(''reward_pool'', 10000), (''X'', 10000)],
      stakes = [],
      rewards = [],
      transactions = [],
      nodePerformance = [(''X'', \<lparr>uptime = Some 100, averageLatency = Some 50,
                                  reputation = Some 100\<rparr>)],
      bandwidthProvided = [(''X'', 100)],
      sessionsServed = [(''X'', 5)]\<rparr>"

definition staked_ledger :: incentive_state where
  "staked_ledger = snd (stakeTokens Number_toString example_config example_ledger 0 ''X'' 5000)"

text \<open>
  Peers with the profiles of the specification's routing scenario, a router holding two
  routes with a session on each and one cached route, and a requirements hash that maps
  every requirement object to the same text.
\<close>

definition no_requirements :: routeRequirements where
  "no_requirements = \<lparr>minBandwidth = None, maxLatency = None, regions = None,
                       encryption = None, algorithm = None\<rparr>"

definition peer :: "string \<Rightarrow> rat \<Rightarrow> rat \<Rightarrow> rat \<Rightarrow> networkNode" where
  "peer name bw lat rep =
     \<lparr>node_id = name,
      bandwidth = Some \<lparr>download = Some bw, latency = Some lat, bw_uptime = None\<rparr>,
      node_reputation = Some rep, region = ''eu'', isActive = True\<rparr>"

definition example_peers :: "networkNode list" where
  "example_peers = [peer ''n1'' 100 50 95, peer ''n2'' 50 100 85, peer ''n3'' 200 25 98]"

definition example_hash :: "routeRequirements \<Rightarrow> string" where
  "example_hash requirements = ''h''"

definition route_via :: "string \<Rightarrow> string \<Rightarrow> route" where
  "route_via routeId nodeId =
     \<lparr>rt_id = routeId, rt_nodes = Some [nodeId], rt_latency = Some 50, rt_bandwidth = Some 100,
      rt_cost = Some 1, rt_encrypted = True, rt_expiresAt = 300000\<rparr>"

definition session_on :: "string \<Rightarrow> route \<Rightarrow> clientSession" where
  "session_on sessionId rt =
     \<lparr>cs_id = sessionId, cs_clientId = ''client'',
      cs_nodeId = (case rt_nodes rt of Some (n # ns) \<Rightarrow> Some n | _ \<Rightarrow> None),
      cs_startTime = 0, cs_bytesTransferred = 0, cs_isActive = True, cs_route = rt\<rparr>"

definition example_router :: router where
  "example_router =
     \<lparr>activeRoutes = [(''r1'', route_via ''r1'' ''n1''), (''r3'', route_via ''r3'' ''n3'')],
      clientSessions = [(''s1'', session_on ''s1'' (route_via ''r1'' ''n1'')),
                        (''s3'', session_on ''s3'' (route_via ''r3'' ''n3''))],
      routeCache = [(''dest:h'', route_via ''r3'' ''n3'')],
      routeTimeout = 300000, maxCacheSize = 1000\<rparr>"


text \<open>
  A router whose cache holds two entries, and four lookups on it: destinations \<open>d1\<close> and
  \<open>d2\<close> are inserted, \<open>d1\<close> is looked up again, then \<open>d3\<close> is inserted.
\<close>

definition lru_router :: router where
  "lru_router = new_router\<lparr>maxCacheSize := 2\<rparr>"

definition lru_step1 :: router where
  "lru_step1 = snd (findRoute example_hash example_peers lru_router 0 ''r1'' ''d1'' no_requirements)"

definition lru_step2 :: router where
  "lru_step2 = snd (findRoute example_hash example_peers lru_step1 1 ''r2'' ''d2'' no_requirements)"

definition lru_step3 :: router where
  "lru_step3 = snd (findRoute example_hash example_peers lru_step2 2 ''r3'' ''d1'' no_requirements)"

definition lru_step4 :: router where
  "lru_step4 = snd (findRoute example_hash example_peers lru_step3 3 ''r4'' ''d3'' no_requirements)"

text \<open>The staked ledger after one distribution run, and after a second run right after it.\<close>

definition paid_once :: incentive_state where
  "paid_once = snd (distributeRewards Number_toString example_config staked_ledger 1 ''daily'')"

definition paid_twice :: incentive_state where
  "paid_twice = snd (distributeRewards Number_toString example_config paid_once 2 ''daily'')"

text \<open>
  A ledger where \<open>X\<close> has staked 5000 and forwarded 1000 units in one session, with uptime
  100 and average latency 900; a ledger where \<open>X\<close> holds 2024.91 and nothing is staked;
  and one where \<open>X\<close> holds 10000.1.
\<close>

definition slow_ledger :: incentive_state where
  "slow_ledger =
     \<lparr>balances = [(''reward_pool'', 10000), (''X'', 5000)],
      stakes = [(''X'', 5000)],
      rewards = [],
      transactions = [],
      nodePerformance = [(''X'', \<lparr>uptime = Some 100, averageLatency = Some 900,
                                  reputation = Some 100\<rparr>)],
      bandwidthProvided = [(''X'', 1000)],
      sessionsServed = [(''X'', 1)]\<rparr>"

definition fraction_ledger :: incentive_state where
  "fraction_ledger =
     \<lparr>balances = [(''X'', round64 (202491 / 100))],
      stakes = [],
      rewards = [],
      transactions = [],
      nodePerformance = [],
      bandwidthProvided = [],
      sessionsServed = []\<rparr>"

definition tenths_ledger :: incentive_state where
  "tenths_ledger = fraction_ledger\<lparr>balances := [(''X'', round64 (100001 / 10))]\<rparr>"

text \<open>
  The peers left when \<open>n3\<close> is gone, and a request that names \<open>toString\<close> as its
  algorithm, with the router after that request was served.
\<close>

definition remaining_peers :: "networkNode list" where
  "remaining_peers = [peer ''n1'' 100 50 95, peer ''n2'' 50 100 85]"

definition toString_requirements :: routeRequirements where
  "toString_requirements = no_requirements\<lparr>algorithm := Some ''toString''\<rparr>"

definition toString_router :: router where
  "toString_router =
     snd (findRoute example_hash example_peers example_router 0 ''r4'' ''other''
            toString_requirements)"

section \<open>The balanced score as the specification words it\<close>

text \<open>
  The score of the specification, in exact arithmetic: bandwidth and latency are normalised
  by 100 and 1000 and capped at 1; reputation and uptime are taken as they are.
\<close>

definition spec_balanced_score :: "networkNode \<Rightarrow> rat" where
  "spec_balanced_score node =
     (let bw_norm = min (or_default (node_download node) 0 / 100) 1;
          lat_norm = min (or_default (node_latency node) 0 / 1000) 1;
          reputation_norm = or_default (node_reputation node) 0;
          uptime_norm = or_default (node_uptime node) 0
      in (4 / 10) * bw_norm + (3 / 10) * (1 - lat_norm) + (2 / 10) * reputation_norm
           + (1 / 10) * uptime_norm)"

section \<open>The reward formula as the specification words it\<close>

text \<open>
  The raw reward of the specification, in exact arithmetic: bytes forwarded times the
  reward rate, times the stake multiplier, the uptime bonus, the latency bonus and the
  session factor \<open>max(sessions, 1)\<close>, with every missing counter or metric read as 0.
\<close>

definition raw_reward :: "config \<Rightarrow> incentive_state \<Rightarrow> string \<Rightarrow> rat" where
  "raw_reward cfg s nodeId =
     (let bytes_forwarded = (case Map_get (bandwidthProvided s) nodeId of None \<Rightarrow> 0 | Some b \<Rightarrow> b);
          sessions_served = (case Map_get (sessionsServed s) nodeId of None \<Rightarrow> 0 | Some n \<Rightarrow> n);
          perf_uptime = (case Map_get (nodePerformance s) nodeId of
                           None \<Rightarrow> 0 | Some p \<Rightarrow> (case uptime p of None \<Rightarrow> 0 | Some u \<Rightarrow> u));
          avg_latency = (case Map_get (nodePerformance s) nodeId of
                           None \<Rightarrow> 0 | Some p \<Rightarrow> (case averageLatency p of None \<Rightarrow> 0 | Some l \<Rightarrow> l))
      in bytes_forwarded * rewardRate cfg
           * min (1 + (getStake s nodeId / minStake cfg) * (1 / 2)) 2
           * (perf_uptime / 100)
           * max 0 (1 - avg_latency / 1000)
           * of_nat (max sessions_served 1))"

text \<open>
  The same formula with the roundings a computation on numbers makes: the stake multiplier
  and the two bonuses are rounded at every operation, each factor is then taken as the
  decimal that prints it, the product of the decimals is exact, and the product is rounded
  to a number once. With a minimum stake of 0 the multiplier of a non-zero stake is 2.
\<close>

definition rounded_reward :: "config \<Rightarrow> incentive_state \<Rightarrow> string \<Rightarrow> rat" where
  "rounded_reward cfg s nodeId =
     (let bytes_forwarded = (case Map_get (bandwidthProvided s) nodeId of None \<Rightarrow> 0 | Some b \<Rightarrow> b);
          sessions_served = (case Map_get (sessionsServed s) nodeId of None \<Rightarrow> 0 | Some n \<Rightarrow> n);
          perf_uptime = (case Map_get (nodePerformance s) nodeId of
                           None \<Rightarrow> 0 | Some p \<Rightarrow> (case uptime p of None \<Rightarrow> 0 | Some u \<Rightarrow> u));
          avg_latency = (case Map_get (nodePerformance s) nodeId of
                           None \<Rightarrow> 0 | Some p \<Rightarrow> (case averageLatency p of None \<Rightarrow> 0 | Some l \<Rightarrow> l));
          stake_mult = (if minStake cfg = 0 then 2
                        else min (js_add 1 (js_mul (js_div (getStake s nodeId) (minStake cfg)) (1 / 2))) 2)
      in round64 (Big bytes_forwarded * Big (rewardRate cfg)
                    * Big stake_mult
                    * Big (js_div perf_uptime 100)
                    * Big (max 0 (js_sub 1 (js_div avg_latency 1000)))
                    * Big (of_nat (max sessions_served 1))))"

section \<open>Payouts of a distribution run, described on the balances\<close>

text \<open>
  A reward is payable from the balances \<open>b\<close> when its amount is positive and the pool
  entry of \<open>b\<close> holds at least that amount; paying it moves the amount from the pool to
  the node, each balance rounded as a number. \<open>paid_rewards\<close> are the rewards of a list
  that get paid when the list is gone through in order, \<open>balances_after\<close> the balances
  this leaves. \<open>last_10000\<close> is the window the transaction log keeps.
\<close>

definition payable :: "(string, rat) js_map \<Rightarrow> reward \<Rightarrow> bool" where
  "payable b rw = (0 < rw_amount rw \<and> rw_amount rw \<le> or_default (Map_get b ''reward_pool'') 0)"

definition pay :: "(string, rat) js_map \<Rightarrow> reward \<Rightarrow> (string, rat) js_map" where
  "pay b rw =
     (let b1 = Map_set b ''reward_pool''
                 (js_sub (or_default (Map_get b ''reward_pool'') 0) (rw_amount rw))
      in Map_set b1 (rw_nodeId rw)
           (js_add (or_default (Map_get b1 (rw_nodeId rw)) 0) (rw_amount rw)))"

fun paid_rewards :: "(string, rat) js_map \<Rightarrow> reward list \<Rightarrow> reward list" where
  "paid_rewards b [] = []"
| "paid_rewards b (rw # rest) =
     (if payable b rw then rw # paid_rewards (pay b rw) rest else paid_rewards b rest)"

fun balances_after :: "(string, rat) js_map \<Rightarrow> reward list \<Rightarrow> (string, rat) js_map" where
  "balances_after b [] = b"
| "balances_after b (rw # rest) = balances_after (if payable b rw then pay b rw else b) rest"

definition last_10000 :: "'a list \<Rightarrow> 'a list" where
  "last_10000 xs = drop (length xs - 10000) xs"

section \<open>Evaluating the arithmetic\<close>

lemma floor_rat_numeral_div:
  "\<lfloor>numeral a / numeral b :: rat\<rfloor> = numeral a div numeral b"
  "\<lfloor>- (numeral a / numeral b) :: rat\<rfloor> = - numeral a div numeral b"
  "\<lfloor>1 / numeral b :: rat\<rfloor> = 1 div numeral b"
  "\<lfloor>- (1 / numeral b) :: rat\<rfloor> = - 1 div numeral b"
proof -
  show "\<lfloor>numeral a / numeral b :: rat\<rfloor> = numeral a div numeral b"
    by (metis floor_divide_of_int_eq of_int_numeral)
  show "\<lfloor>- (numeral a / numeral b) :: rat\<rfloor> = - numeral a div numeral b"
    by (metis divide_minus_left floor_divide_of_int_eq of_int_neg_numeral of_int_numeral)
  show "\<lfloor>1 / numeral b :: rat\<rfloor> = 1 div numeral b"
    by (metis floor_divide_of_int_eq of_int_1 of_int_numeral)
  show "\<lfloor>- (1 / numeral b) :: rat\<rfloor> = - 1 div numeral b"
    by (metis divide_minus_left floor_divide_of_int_eq of_int_1 of_int_minus of_int_numeral)
qed

lemmas f_eval =
  round64_def floor_log.simps pow_int_def round_half_even_def Let_def floor_rat_numeral_div
  js_add_def js_sub_def js_mul_def js_div_def

lemmas big_eval = Big_def shortest_decimal.simps decimal_with_def toNumber_def

lemmas text_eval = Number_toString_def plain_decimal_def decimal.simps fraction_digits.simps

lemma round64_whole:
  "round64 1 = 1" "round64 2 = 2" "round64 5 = 5" "round64 95 = 95" "round64 100 = 100"
  "round64 1000 = 1000" "round64 5000 = 5000" "round64 9000 = 9000" "round64 10000 = 10000"
  "round64 9905 = 9905" "round64 5095 = 5095" "round64 9810 = 9810" "round64 5190 = 5190"
  by (simp_all add: f_eval)

lemma round64_tenth: "round64 (1 / 10) = 3602879701896397 / 36028797018963968"
  by (simp add: f_eval)

lemma Big_whole:
  "Big 1 = 1" "Big 2 = 2" "Big 5 = 5" "Big 100 = 100" "Big 1000 = 1000" "Big 95 = 95"
  "Big 5000 = 5000"
  by (simp_all add: big_eval f_eval)

lemma Big_tenth: "Big (3602879701896397 / 36028797018963968) = 1 / 10"
  by (simp add: big_eval f_eval)

lemma Number_toString_whole:
  "Number_toString 1 = ''1''" "Number_toString 2 = ''2''" "Number_toString 95 = ''95''"
  "Number_toString 1000 = ''1000''" "Number_toString 5000 = ''5000''"
  by (simp_all add: text_eval Big_whole f_eval)

section \<open>Ledger: auxiliary facts\<close>

lemma or_default_0: "or_default x 0 = (case x of None \<Rightarrow> 0 | Some v \<Rightarrow> v)"
  by (simp add: or_default_def split: option.splits)

lemma getBalance_set:
  "getBalance (s\<lparr>balances := Map_set b n v\<rparr>) m =
     (if m = n then v else or_default (Map_get b m) 0)"
  by (simp add: getBalance_def Map_get_def Map_set_def update_conv' or_default_0)

lemma getStake_set:
  "getStake (s\<lparr>stakes := Map_set b n v\<rparr>) m =
     (if m = n then v else or_default (Map_get b m) 0)"
  by (simp add: getStake_def Map_get_def Map_set_def update_conv' or_default_0)

lemmas ledger_reads = getBalance_set getStake_set getBalance_def [symmetric] getStake_def [symmetric]

lemma getStake_balances [simp]: "getStake (s\<lparr>balances := b\<rparr>) m = getStake s m"
  by (simp add: getStake_def)

lemma getBalance_stakes [simp]: "getBalance (s\<lparr>stakes := b\<rparr>) m = getBalance s m"
  by (simp add: getBalance_def)


lemma recordTransaction_fields [simp]:
  "balances (recordTransaction s tx) = balances s"
  "stakes (recordTransaction s tx) = stakes s"
  "nodePerformance (recordTransaction s tx) = nodePerformance s"
  "bandwidthProvided (recordTransaction s tx) = bandwidthProvided s"
  "sessionsServed (recordTransaction s tx) = sessionsServed s"
  by (simp_all add: recordTransaction_def Let_def)

lemma getBalance_recordTransaction [simp]: "getBalance (recordTransaction s tx) m = getBalance s m"
  by (simp add: getBalance_def)

lemma getStake_recordTransaction [simp]: "getStake (recordTransaction s tx) m = getStake s m"
  by (simp add: getStake_def)

lemma transactions_recordTransaction:
  "transactions (recordTransaction s tx) =
     drop (length (transactions s) + 1 - 10000) (transactions s @ [tx])"
  by (simp add: recordTransaction_def Let_def)

lemma last_recordTransaction: "last (transactions (recordTransaction s tx)) = tx"
  by (simp add: recordTransaction_def Let_def)

lemma stakeTokens_success:
  assumes "x \<le> getBalance s n" "minStake cfg \<le> x" "privateKey cfg = Some k"
  shows "stakeTokens str cfg s now n x =
     (Inr \<lparr>sr_nodeId = n, sr_amount = x, sr_totalStake = js_add (getStake s n) x,
           sr_timestamp = now\<rparr>,
      recordTransaction
        (s\<lparr>balances := Map_set (balances s) n (js_sub (getBalance s n) x),
           stakes := Map_set (stakes s) n (js_add (getStake s n) x)\<rparr>)
        \<lparr>tx_type = ''stake'', tx_from = n, tx_to = ''stake_pool'', tx_amount = x,
         tx_timestamp = now, tx_metadata = None,
         tx_signature = Signature k (n @ '':'' @ str x @ '':stake'')\<rparr>)"
  using assms
  by (simp add: stakeTokens_def stakeTokens_body_def rethrow_def sign_def Let_def or_default_0
      ledger_reads)

lemma stakeTokens_Inr:
  assumes "stakeTokens str cfg s now n x = (Inr r, s')"
  shows "x \<le> getBalance s n \<and> minStake cfg \<le> x \<and> (\<exists>k. privateKey cfg = Some k)"
  using assms
  by (auto simp: stakeTokens_def stakeTokens_body_def rethrow_def sign_def Let_def
      split: if_splits option.splits)

lemma unstakeTokens_success:
  assumes "x \<le> getStake s n" "privateKey cfg = Some k"
  shows "unstakeTokens str cfg s now n x =
     (Inr \<lparr>sr_nodeId = n, sr_amount = x, sr_totalStake = js_sub (getStake s n) x,
           sr_timestamp = now\<rparr>,
      recordTransaction
        (s\<lparr>balances := Map_set (balances s) n (js_add (getBalance s n) x),
           stakes := Map_set (stakes s) n (js_sub (getStake s n) x)\<rparr>)
        \<lparr>tx_type = ''unstake'', tx_from = ''stake_pool'', tx_to = n, tx_amount = x,
         tx_timestamp = now, tx_metadata = None,
         tx_signature = Signature k (n @ '':'' @ str x @ '':unstake'')\<rparr>)"
  using assms
  by (simp add: unstakeTokens_def unstakeTokens_body_def rethrow_def sign_def Let_def or_default_0
      ledger_reads)


lemma unstakeTokens_Inr:
  assumes "unstakeTokens str cfg s now n x = (Inr r, s')"
  shows "x \<le> getStake s n \<and> (\<exists>k. privateKey cfg = Some k)"
  using assms
  by (auto simp: unstakeTokens_def unstakeTokens_body_def rethrow_def sign_def Let_def
      split: if_splits option.splits)


lemma example_reads:
  "getBalance example_ledger ''Y'' = 0" "getBalance example_ledger ''X'' = 10000"
  "getStake example_ledger ''X'' = 0" "transactions example_ledger = []"
  "minStake example_config = 1000" "privateKey example_config = Some 1"
  by (simp_all add: example_ledger_def example_config_def getBalance_def getStake_def Map_get_def
      or_default_def)

lemma example_stake:
  "stakeTokens Number_toString example_config example_ledger 0 ''X'' 5000 =
     (Inr \<lparr>sr_nodeId = ''X'', sr_amount = 5000, sr_totalStake = 5000, sr_timestamp = 0\<rparr>,
      \<lparr>balances = [(''reward_pool'', 10000), (''X'', 5000)],
       stakes = [(''X'', 5000)],
       rewards = [],
       transactions = [\<lparr>tx_type = ''stake'', tx_from = ''X'', tx_to = ''stake_pool'',
                        tx_amount = 5000, tx_timestamp = 0, tx_metadata = None,
                        tx_signature = Signature 1 ''X:5000:stake''\<rparr>],
       nodePerformance = [(''X'', \<lparr>uptime = Some 100, averageLatency = Some 50,
                                  reputation = Some 100\<rparr>)],
       bandwidthProvided = [(''X'', 100)],
       sessionsServed = [(''X'', 5)]\<rparr>)"
proof -
  have "(5000::rat) \<le> getBalance example_ledger ''X''" "minStake example_config \<le> 5000"
    by (simp_all add: example_reads)
  from stakeTokens_success [OF this example_reads(6), of Number_toString 0]
  show ?thesis
    by (simp add: example_reads js_add_def js_sub_def round64_whole Number_toString_whole)
       (simp add: example_ledger_def recordTransaction_def Map_set_def)
qed

lemma staked_ledger_eq:
  "staked_ledger =
      \<lparr>balances = [(''reward_pool'', 10000), (''X'', 5000)],
       stakes = [(''X'', 5000)],
       rewards = [],
       transactions = [\<lparr>tx_type = ''stake'', tx_from = ''X'', tx_to = ''stake_pool'',
                        tx_amount = 5000, tx_timestamp = 0, tx_metadata = None,
                        tx_signature = Signature 1 ''X:5000:stake''\<rparr>],
       nodePerformance = [(''X'', \<lparr>uptime = Some 100, averageLatency = Some 50,
                                  reputation = Some 100\<rparr>)],
       bandwidthProvided = [(''X'', 100)],
       sessionsServed = [(''X'', 5)]\<rparr>"
  by (simp add: staked_ledger_def example_stake)

lemma staked_reads:
  "getBalance staked_ledger ''X'' = 5000" "getStake staked_ledger ''X'' = 5000"
  "getBalance staked_ledger ''reward_pool'' = 10000"
  by (simp_all add: staked_ledger_eq getBalance_def getStake_def Map_get_def or_default_def)



lemma tenths_values:
  "round64 (100001 / 10) = 5497613114461389 / 549755813888"
  "round64 (10003 / 10) = 4399365925057331 / 4398046511104"
  "js_sub (5497613114461389 / 549755813888) (4399365925057331 / 4398046511104)
     = 4947692373829223 / 549755813888"
  by (simp_all add: f_eval)

lemma tenths_reads:
  "getBalance tenths_ledger ''X'' = 5497613114461389 / 549755813888"
  "getStake tenths_ledger ''X'' = 0"
  by (simp_all add: tenths_ledger_def fraction_ledger_def tenths_values getBalance_def getStake_def
      Map_get_def or_default_def)

section \<open>Ledger: staking\<close>

text \<open>
  Claim C2, as the code has it. The caller of \<open>stakeTokens\<close> never sees the codes
  \<open>INSUFFICIENT_BALANCE\<close> or \<open>MIN_STAKE_NOT_MET\<close>: the method catches its own exception
  and throws one with code \<open>STAKING_ERROR\<close>, whose message carries the original message.
  A balance below the amount gives the wrapped insufficient-balance message; otherwise an
  amount strictly below \<open>minStake\<close> gives the wrapped minimum-stake message; otherwise,
  with a private key configured, the call succeeds, the balance of the node becomes the
  number nearest to the balance minus the amount, its stake the number nearest to the stake
  plus the amount, no other node is touched, and the log is the old log followed by one
  stake transaction signed over \<open>`${nodeId}:${amount}:stake`\<close>, cut to its last 10000
  entries.
\<close>

theorem stakeTokens_outcomes:
  "(getBalance s n < x \<longrightarrow>
      stakeTokens str cfg s now n x =
        (Inl (NetworkNeuronError ''Staking failed: Insufficient balance for staking''
                ''STAKING_ERROR''), s))
   \<and> (x \<le> getBalance s n \<and> x < minStake cfg \<longrightarrow>
      stakeTokens str cfg s now n x =
        (Inl (NetworkNeuronError (''Staking failed: Minimum stake required: '' @ str (minStake cfg))
                ''STAKING_ERROR''), s))
   \<and> (x \<le> getBalance s n \<and> minStake cfg \<le> x \<and> privateKey cfg = Some k \<longrightarrow>
      (\<exists>res s'. stakeTokens str cfg s now n x = (Inr res, s')
         \<and> getBalance s' n = js_sub (getBalance s n) x
         \<and> getStake s' n = js_add (getStake s n) x
         \<and> (\<forall>m. m \<noteq> n \<longrightarrow> getBalance s' m = getBalance s m \<and> getStake s' m = getStake s m)
         \<and> transactions s' =
             drop (length (transactions s) + 1 - 10000)
               (transactions s @
                  [\<lparr>tx_type = ''stake'', tx_from = n, tx_to = ''stake_pool'', tx_amount = x,
                    tx_timestamp = now, tx_metadata = None,
                    tx_signature = Signature k (n @ '':'' @ str x @ '':stake'')\<rparr>])))"
proof (intro conjI impI)
  assume "getBalance s n < x"
  then show "stakeTokens str cfg s now n x =
        (Inl (NetworkNeuronError ''Staking failed: Insufficient balance for staking''
                ''STAKING_ERROR''), s)"
    by (simp add: stakeTokens_def stakeTokens_body_def rethrow_def Let_def)
next
  assume "x \<le> getBalance s n \<and> x < minStake cfg"
  then show "stakeTokens str cfg s now n x =
        (Inl (NetworkNeuronError (''Staking failed: Minimum stake required: '' @ str (minStake cfg))
                ''STAKING_ERROR''), s)"
    by (simp add: stakeTokens_def stakeTokens_body_def rethrow_def Let_def)
next
  assume a: "x \<le> getBalance s n \<and> minStake cfg \<le> x \<and> privateKey cfg = Some k"
  show "\<exists>res s'. stakeTokens str cfg s now n x = (Inr res, s')
         \<and> getBalance s' n = js_sub (getBalance s n) x
         \<and> getStake s' n = js_add (getStake s n) x
         \<and> (\<forall>m. m \<noteq> n \<longrightarrow> getBalance s' m = getBalance s m \<and> getStake s' m = getStake s m)
         \<and> transactions s' =
             drop (length (transactions s) + 1 - 10000)
               (transactions s @
                  [\<lparr>tx_type = ''stake'', tx_from = n, tx_to = ''stake_pool'', tx_amount = x,
                    tx_timestamp = now, tx_metadata = None,
                    tx_signature = Signature k (n @ '':'' @ str x @ '':stake'')\<rparr>])"
    using a
    by (simp add: stakeTokens_success transactions_recordTransaction ledger_reads)
qed

theorem stakeTokens_outcomes_witness:
  "getBalance example_ledger ''Y'' < 5000
   \<and> stakeTokens Number_toString example_config example_ledger 0 ''Y'' 5000 =
        (Inl (NetworkNeuronError ''Staking failed: Insufficient balance for staking''
                ''STAKING_ERROR''), example_ledger)
   \<and> 500 \<le> getBalance example_ledger ''X'' \<and> 500 < minStake example_config
   \<and> stakeTokens Number_toString example_config example_ledger 0 ''X'' 500 =
        (Inl (NetworkNeuronError ''Staking failed: Minimum stake required: 1000''
                ''STAKING_ERROR''), example_ledger)
   \<and> 1000 \<le> getBalance example_ledger ''X'' \<and> minStake example_config \<le> 1000
   \<and> privateKey example_config = Some 1
   \<and> (\<exists>res s'. stakeTokens Number_toString example_config example_ledger 0 ''X'' 1000 = (Inr res, s')
         \<and> getBalance s' ''X'' = 9000 \<and> getStake s' ''X'' = 1000
         \<and> length (transactions s') = 1)"
proof -
  have r: "js_sub 10000 1000 = 9000" "js_add 0 1000 = 1000"
    by (simp_all add: js_sub_def js_add_def round64_whole)
  show ?thesis
    using stakeTokens_outcomes [of example_ledger "''Y''" 5000 Number_toString example_config 0 1]
      stakeTokens_outcomes [of example_ledger "''X''" 500 Number_toString example_config 0 1]
      stakeTokens_outcomes [of example_ledger "''X''" 1000 Number_toString example_config 0 1]
    by (simp add: example_reads r Number_toString_whole) force
qed

text \<open>
  Claim C2 as worded fails on the error kind and on the amounts. Staking 5000 from a node
  without balance does not raise an error with code \<open>INSUFFICIENT_BALANCE\<close>. And when a
  node holding 10000.1 stakes 1000.3, its balance becomes 8999.800000000001, which is more
  than the balance less the amount.
\<close>

theorem stakeTokens_code_counterexample:
  "fst (stakeTokens Number_toString example_config example_ledger 0 ''Y'' 5000) =
     Inl (NetworkNeuronError ''Staking failed: Insufficient balance for staking'' ''STAKING_ERROR'')
   \<and> fst (stakeTokens Number_toString example_config example_ledger 0 ''Y'' 5000) \<noteq>
     Inl (NetworkNeuronError ''Insufficient balance for staking'' ''INSUFFICIENT_BALANCE'')
   \<and> Number_toString (getBalance tenths_ledger ''X'') = ''10000.1''
   \<and> Number_toString (round64 (10003 / 10)) = ''1000.3''
   \<and> getBalance (snd (stakeTokens Number_toString example_config tenths_ledger 0 ''X''
                        (round64 (10003 / 10)))) ''X''
       = 4947692373829223 / 549755813888
   \<and> Number_toString (4947692373829223 / 549755813888) = ''8999.800000000001''
   \<and> getBalance tenths_ledger ''X'' - round64 (10003 / 10) < 4947692373829223 / 549755813888"
proof -
  have a: "fst (stakeTokens Number_toString example_config example_ledger 0 ''Y'' 5000) =
     Inl (NetworkNeuronError ''Staking failed: Insufficient balance for staking'' ''STAKING_ERROR'')"
    by (simp add: stakeTokens_def stakeTokens_body_def rethrow_def Let_def example_reads)
  have le: "(4399365925057331 / 4398046511104 :: rat) \<le> getBalance tenths_ledger ''X''"
    "minStake example_config \<le> 4399365925057331 / 4398046511104"
    by (simp_all add: tenths_reads example_reads)
  have b: "getBalance (snd (stakeTokens Number_toString example_config tenths_ledger 0 ''X''
                        (round64 (10003 / 10)))) ''X''
       = 4947692373829223 / 549755813888"
    unfolding tenths_values(2)
    by (simp add: stakeTokens_success [OF le example_reads(6)] ledger_reads tenths_reads
        tenths_values)
  have c: "Number_toString (getBalance tenths_ledger ''X'') = ''10000.1''"
    "Number_toString (round64 (10003 / 10)) = ''1000.3''"
    "Number_toString (4947692373829223 / 549755813888) = ''8999.800000000001''"
    unfolding tenths_values tenths_reads by (simp_all add: text_eval big_eval f_eval)
  have d: "getBalance tenths_ledger ''X'' - round64 (10003 / 10) < 4947692373829223 / 549755813888"
    by (simp add: tenths_reads tenths_values)
  from a b c d show ?thesis
    by simp
qed




section \<open>Ledger: transaction signatures\<close>

lemma distributeReward_paid:
  assumes "rw_amount rw \<le> getBalance s ''reward_pool''" "privateKey cfg = Some k"
  shows "fst (distributeReward str cfg s now rw) = Inr ()"
    and "last (transactions (snd (distributeReward str cfg s now rw))) =
        \<lparr>tx_type = ''reward'', tx_from = ''reward_pool'', tx_to = rw_nodeId rw,
         tx_amount = rw_amount rw, tx_timestamp = now,
         tx_metadata = Some \<lparr>md_period = rw_period rw,
                             md_bandwidthProvided = rw_bandwidthProvided rw,
                             md_sessionsServed = rw_sessionsServed rw\<rparr>,
         tx_signature = Signature k (''reward:'' @ rw_nodeId rw @ '':'' @ str (rw_amount rw))\<rparr>"
  using assms
  by (simp_all add: distributeReward_def distributeReward_body_def rethrow_def sign_def Let_def
      last_recordTransaction)

lemma distributeReward_Inr:
  assumes "distributeReward str cfg s now rw = (Inr u, s')"
    and "rw_amount rw \<le> getBalance s ''reward_pool''"
  shows "\<exists>k. privateKey cfg = Some k"
  using assms
  by (auto simp: distributeReward_def distributeReward_body_def rethrow_def sign_def Let_def
      split: if_splits option.splits)


lemma validate_signed:
  "validateTransaction str cfg tx =
     (\<exists>k. publicKey cfg = Some k \<and>
          tx_signature tx =
            Signature k (tx_from tx @ '':'' @ tx_to tx @ '':'' @ str (tx_amount tx) @ '':'' @ tx_type tx))"
  by (cases "tx_signature tx")
     (auto simp: validateTransaction_def verify_def Let_def split: option.splits)

lemma stake_message_differs:
  "n @ '':'' @ a @ '':stake'' \<noteq> n @ '':'' @ ''stake_pool'' @ '':'' @ a @ '':'' @ ''stake''"
proof
  assume "n @ '':'' @ a @ '':stake'' = n @ '':'' @ ''stake_pool'' @ '':'' @ a @ '':'' @ ''stake''"
  then have "length (n @ '':'' @ a @ '':stake'')
               = length (n @ '':'' @ ''stake_pool'' @ '':'' @ a @ '':'' @ ''stake'')"
    by (rule arg_cong)
  then show False by simp
qed

lemma unstake_message_differs:
  "n @ '':'' @ a @ '':unstake'' \<noteq> ''stake_pool'' @ '':'' @ n @ '':'' @ a @ '':'' @ ''unstake''"
proof
  assume "n @ '':'' @ a @ '':unstake'' = ''stake_pool'' @ '':'' @ n @ '':'' @ a @ '':'' @ ''unstake''"
  then have "length (n @ '':'' @ a @ '':unstake'')
               = length (''stake_pool'' @ '':'' @ n @ '':'' @ a @ '':'' @ ''unstake'')"
    by (rule arg_cong)
  then show False by simp
qed

lemma reward_message_differs:
  "''reward:'' @ n @ '':'' @ a \<noteq> ''reward_pool'' @ '':'' @ n @ '':'' @ a @ '':'' @ ''reward''"
proof
  assume "''reward:'' @ n @ '':'' @ a = ''reward_pool'' @ '':'' @ n @ '':'' @ a @ '':'' @ ''reward''"
  then have "length (''reward:'' @ n @ '':'' @ a)
               = length (''reward_pool'' @ '':'' @ n @ '':'' @ a @ '':'' @ ''reward'')"
    by (rule arg_cong)
  then show False by simp
qed


text \<open>
  Claim C5 fails on the code. \<open>stakeTokens\<close> signs \<open>`${nodeId}:${amount}:stake`\<close>,
  \<open>unstakeTokens\<close> signs \<open>`${nodeId}:${amount}:unstake`\<close> and \<open>distributeReward\<close> signs
  \<open>`reward:${nodeId}:${amount}`\<close>, while \<open>validateTransaction\<close> verifies
  \<open>`${from}:${to}:${amount}:${type}`\<close>. The two texts never have the same length, so the
  transaction logged by a successful stake, unstake or reward payment never validates,
  whatever public key is configured.
\<close>

theorem logged_transactions_fail_validation:
  "(stakeTokens str cfg s now n x = (Inr r, s') \<longrightarrow>
      \<not> validateTransaction str cfg (last (transactions s')))
   \<and> (unstakeTokens str cfg s now n x = (Inr r, s') \<longrightarrow>
      \<not> validateTransaction str cfg (last (transactions s')))
   \<and> (distributeReward str cfg s now rw = (Inr u, s') \<and> rw_amount rw \<le> getBalance s ''reward_pool''
        \<longrightarrow> \<not> validateTransaction str cfg (last (transactions s')))"
proof (intro conjI impI)
  assume a: "stakeTokens str cfg s now n x = (Inr r, s')"
  from stakeTokens_Inr [OF a] obtain k where
    c: "x \<le> getBalance s n" "minStake cfg \<le> x" "privateKey cfg = Some k"
    by blast
  from a stakeTokens_success [OF c, of str now]
  have "last (transactions s') =
          \<lparr>tx_type = ''stake'', tx_from = n, tx_to = ''stake_pool'', tx_amount = x,
           tx_timestamp = now, tx_metadata = None,
           tx_signature = Signature k (n @ '':'' @ str x @ '':stake'')\<rparr>"
    by (auto simp: last_recordTransaction)
  then show "\<not> validateTransaction str cfg (last (transactions s'))"
    using stake_message_differs [of n "str x"] by (simp add: validate_signed)
next
  assume a: "unstakeTokens str cfg s now n x = (Inr r, s')"
  from unstakeTokens_Inr [OF a] obtain k where
    c: "x \<le> getStake s n" "privateKey cfg = Some k"
    by blast
  from a unstakeTokens_success [OF c, of str now]
  have "last (transactions s') =
          \<lparr>tx_type = ''unstake'', tx_from = ''stake_pool'', tx_to = n, tx_amount = x,
           tx_timestamp = now, tx_metadata = None,
           tx_signature = Signature k (n @ '':'' @ str x @ '':unstake'')\<rparr>"
    by (auto simp: last_recordTransaction)
  then show "\<not> validateTransaction str cfg (last (transactions s'))"
    using unstake_message_differs [of n "str x"] by (simp add: validate_signed)
next
  assume a: "distributeReward str cfg s now rw = (Inr u, s') \<and> rw_amount rw \<le> getBalance s ''reward_pool''"
  then have le: "rw_amount rw \<le> getBalance s ''reward_pool''" and
    d: "distributeReward str cfg s now rw = (Inr u, s')"
    by simp_all
  from distributeReward_Inr [OF d le] obtain k where k: "privateKey cfg = Some k"
    by blast
  from distributeReward_paid(2) [OF le k, of str now] d
  have "last (transactions s') =
        \<lparr>tx_type = ''reward'', tx_from = ''reward_pool'', tx_to = rw_nodeId rw,
         tx_amount = rw_amount rw, tx_timestamp = now,
         tx_metadata = Some \<lparr>md_period = rw_period rw,
                             md_bandwidthProvided = rw_bandwidthProvided rw,
                             md_sessionsServed = rw_sessionsServed rw\<rparr>,
         tx_signature = Signature k (''reward:'' @ rw_nodeId rw @ '':'' @ str (rw_amount rw))\<rparr>"
    by auto
  then show "\<not> validateTransaction str cfg (last (transactions s'))"
    using reward_message_differs [of "rw_nodeId rw" "str (rw_amount rw)"]
    by (simp add: validate_signed)
qed

theorem logged_transactions_fail_validation_witness:
  "(\<exists>r. stakeTokens Number_toString example_config example_ledger 0 ''X'' 5000 = (Inr r, staked_ledger))
   \<and> \<not> validateTransaction Number_toString example_config (last (transactions staked_ledger))
   \<and> (\<exists>r s'. unstakeTokens Number_toString example_config staked_ledger 1 ''X'' 5000 = (Inr r, s')
          \<and> \<not> validateTransaction Number_toString example_config (last (transactions s')))
   \<and> (\<exists>u s'. distributeReward Number_toString example_config staked_ledger 1
                  \<lparr>rw_nodeId = ''X'', rw_amount = 95, rw_period = ''daily'',
                   rw_bandwidthProvided = 100, rw_sessionsServed = 5, rw_stake = 5000,
                   rw_performance = Some (100, 50, 100), rw_timestamp = 1, rw_reason = None\<rparr>
                = (Inr u, s')
          \<and> 95 \<le> getBalance staked_ledger ''reward_pool''
          \<and> \<not> validateTransaction Number_toString example_config (last (transactions s')))"
proof -
  define rw where "rw = \<lparr>rw_nodeId = ''X'', rw_amount = 95, rw_period = ''daily'',
                   rw_bandwidthProvided = 100, rw_sessionsServed = 5, rw_stake = 5000,
                   rw_performance = Some (100, 50, 100), rw_timestamp = 1, rw_reason = None\<rparr>"
  have key: "privateKey example_config = Some 1"
    by (rule example_reads(6))
  have st: "stakeTokens Number_toString example_config example_ledger 0 ''X'' 5000 =
     (Inr \<lparr>sr_nodeId = ''X'', sr_amount = 5000, sr_totalStake = 5000, sr_timestamp = 0\<rparr>,
      staked_ledger)"
    by (simp add: example_stake staked_ledger_eq)
  have staked: "5000 \<le> getStake staked_ledger ''X''"
    by (simp add: staked_reads)
  obtain r2 s2 where un: "unstakeTokens Number_toString example_config staked_ledger 1 ''X'' 5000 =
      (Inr r2, s2)"
    using unstakeTokens_success [OF staked key] by blast
  have pool: "rw_amount rw \<le> getBalance staked_ledger ''reward_pool''"
    by (simp add: rw_def staked_reads)
  obtain s3 where pay: "distributeReward Number_toString example_config staked_ledger 1 rw =
      (Inr (), s3)"
    using distributeReward_paid(1) [OF pool key, of Number_toString 1]
    by (cases "distributeReward Number_toString example_config staked_ledger 1 rw") simp
  from logged_transactions_fail_validation
    [of Number_toString example_config example_ledger 0 "''X''" 5000 _ staked_ledger] st
  have v1: "\<not> validateTransaction Number_toString example_config (last (transactions staked_ledger))"
    by blast
  from logged_transactions_fail_validation
    [of Number_toString example_config staked_ledger 1 "''X''" 5000 r2 s2] un
  have v2: "\<not> validateTransaction Number_toString example_config (last (transactions s2))"
    by blast
  from logged_transactions_fail_validation
    [of Number_toString example_config staked_ledger 1 _ _ _ s3 rw "()"] pay pool
  have v3: "\<not> validateTransaction Number_toString example_config (last (transactions s3))"
    by blast
  have a: "\<exists>r. stakeTokens Number_toString example_config example_ledger 0 ''X'' 5000 =
              (Inr r, staked_ledger)"
    using st by (rule exI)
  have b: "\<exists>r s'. unstakeTokens Number_toString example_config staked_ledger 1 ''X'' 5000 = (Inr r, s')
          \<and> \<not> validateTransaction Number_toString example_config (last (transactions s'))"
    using un v2 by (intro exI conjI)
  have c: "\<exists>u s'. distributeReward Number_toString example_config staked_ledger 1 rw = (Inr u, s')
          \<and> 95 \<le> getBalance staked_ledger ''reward_pool''
          \<and> \<not> validateTransaction Number_toString example_config (last (transactions s'))"
  proof (intro exI conjI)
    show "distributeReward Number_toString example_config staked_ledger 1 rw = (Inr (), s3)"
      by (rule pay)
    show "95 \<le> getBalance staked_ledger ''reward_pool''"
      using pool by (simp add: rw_def)
    show "\<not> validateTransaction Number_toString example_config (last (transactions s3))"
      by (rule v3)
  qed
  show ?thesis
    using a v1 b c unfolding rw_def by (intro conjI)
qed

section \<open>Router: sessions and peer loss\<close>

lemma Map_delete_filter: "Map_delete m k = filter (\<lambda>e. fst e \<noteq> k) m"
  by (auto simp: Map_delete_def AList.delete_eq intro: filter_cong)

lemma Map_get_None: "Map_get m k = None \<longleftrightarrow> k \<notin> fst ` set m"
  by (simp add: Map_get_def map_of_eq_None_iff)

lemma cleanupRoute_fields:
  "clientSessions (cleanupRoute s now routeId) = clientSessions s"
  "routeCache (cleanupRoute s now routeId) = routeCache s"
  "set (activeRoutes (cleanupRoute s now routeId)) \<subseteq> set (activeRoutes s)"
  by (auto simp: cleanupRoute_def Map_delete_filter split: option.splits)

lemma closeSession_fields:
  "set (clientSessions (closeSession s now sessionId)) \<subseteq> set (clientSessions s)"
  "set (activeRoutes (closeSession s now sessionId)) \<subseteq> set (activeRoutes s)"
  "routeCache (closeSession s now sessionId) = routeCache s"
  "sessionId \<notin> fst ` set (clientSessions (closeSession s now sessionId))"
proof -
  show "set (clientSessions (closeSession s now sessionId)) \<subseteq> set (clientSessions s)"
    by (auto simp: closeSession_def cleanupRoute_fields Map_delete_filter split: option.splits)
  show "set (activeRoutes (closeSession s now sessionId)) \<subseteq> set (activeRoutes s)"
    using cleanupRoute_fields(3)
    by (fastforce simp: closeSession_def split: option.splits)
  show "routeCache (closeSession s now sessionId) = routeCache s"
    by (simp add: closeSession_def cleanupRoute_fields split: option.splits)
  show "sessionId \<notin> fst ` set (clientSessions (closeSession s now sessionId))"
    by (auto simp: closeSession_def cleanupRoute_fields Map_delete_filter Map_get_None
        split: option.splits)
qed

text \<open>
  Claim C10. For a session id that is not in the session table, \<open>closeSession\<close> returns
  the router as it was (no table changes, and the method has no failure path); closing the
  same id a second time changes nothing more than the first call did.
\<close>

theorem closeSession_unknown:
  "(Map_get (clientSessions s) sessionId = None \<longrightarrow> closeSession s now sessionId = s)
   \<and> closeSession (closeSession s now sessionId) now' sessionId = closeSession s now sessionId"
proof
  show "Map_get (clientSessions s) sessionId = None \<longrightarrow> closeSession s now sessionId = s"
    by (simp add: closeSession_def)
  have "Map_get (clientSessions (closeSession s now sessionId)) sessionId = None"
    using closeSession_fields(4) [of sessionId s now] by (simp add: Map_get_None)
  then show "closeSession (closeSession s now sessionId) now' sessionId = closeSession s now sessionId"
    by (simp add: closeSession_def [of "closeSession s now sessionId"])
qed

theorem closeSession_unknown_witness:
  "Map_get (clientSessions example_router) ''s9'' = None
   \<and> closeSession example_router 0 ''s9'' = example_router"
  using closeSession_unknown [of example_router "''s9''" 0 0]
  by (simp add: example_router_def Map_get_def)

subsection \<open>What a peer loss removes\<close>

lemma nodes_include_Inr:
  "nodes_include rt peerId = Inr hit \<longleftrightarrow>
     (\<exists>nodes. rt_nodes rt = Some nodes \<and> hit = (peerId \<in> set nodes))"
  by (auto simp: nodes_include_def split: option.splits)

lemma routesToRemove_Inr:
  "routesToRemove peerId m = Inr ids \<Longrightarrow>
     ids = map fst (filter (\<lambda>e. nodes_include (snd e) peerId = Inr True) m)
     \<and> (\<forall>e \<in> set m. \<exists>hit. nodes_include (snd e) peerId = Inr hit)"
proof (induction m arbitrary: ids)
  case Nil
  then show ?case by simp
next
  case (Cons entry rest)
  from Cons.prems obtain hit where hit: "nodes_include (snd entry) peerId = Inr hit"
    by (cases "nodes_include (snd entry) peerId") auto
  from Cons.prems hit obtain ids' where ids': "routesToRemove peerId rest = Inr ids'"
    by (cases "routesToRemove peerId rest") auto
  from Cons.prems hit ids' have ids: "ids = (if hit then fst entry # ids' else ids')"
    by simp
  from Cons.IH [OF ids'] hit ids show ?case
    by auto
qed

lemma delete_loop:
  "activeRoutes (fold (\<lambda>routeId st. st\<lparr>activeRoutes := Map_delete (activeRoutes st) routeId\<rparr>) ids s)
     = filter (\<lambda>e. fst e \<notin> set ids) (activeRoutes s)
   \<and> clientSessions (fold (\<lambda>routeId st. st\<lparr>activeRoutes := Map_delete (activeRoutes st) routeId\<rparr>) ids s)
     = clientSessions s
   \<and> routeCache (fold (\<lambda>routeId st. st\<lparr>activeRoutes := Map_delete (activeRoutes st) routeId\<rparr>) ids s)
     = routeCache s"
proof (induction ids arbitrary: s)
  case Nil
  show ?case by simp
next
  case (Cons i ids)
  show ?case
    using Cons.IH [of "s\<lparr>activeRoutes := Map_delete (activeRoutes s) i\<rparr>"]
    by (auto simp: Map_delete_filter intro: filter_cong)
qed

lemma closeSessionsUsing_subset:
  "set (clientSessions (snd (closeSessionsUsing peerId now es s))) \<subseteq> set (clientSessions s)
   \<and> set (activeRoutes (snd (closeSessionsUsing peerId now es s))) \<subseteq> set (activeRoutes s)
   \<and> routeCache (snd (closeSessionsUsing peerId now es s)) = routeCache s"
proof (induction es arbitrary: s)
  case Nil
  show ?case by simp
next
  case (Cons entry rest)
  show ?case
  proof (cases "nodes_include (cs_route (snd entry)) peerId")
    case (Inl e)
    then show ?thesis by simp
  next
    case (Inr hit)
    show ?thesis
    proof (cases hit)
      case False
      with Inr Cons.IH [of s] show ?thesis by simp
    next
      case True
      with Inr Cons.IH [of "closeSession s now (fst entry)"]
        closeSession_fields(1,2,3) [of s now "fst entry"]
      show ?thesis by auto
    qed
  qed
qed

lemma closeSessionsUsing_closes:
  "closeSessionsUsing peerId now es s = (Inr u, s') \<Longrightarrow> e \<in> set es \<Longrightarrow>
     (\<exists>hit. nodes_include (cs_route (snd e)) peerId = Inr hit
        \<and> (hit \<longrightarrow> fst e \<notin> fst ` set (clientSessions s')))"
proof (induction es arbitrary: s)
  case Nil
  then show ?case by simp
next
  case (Cons entry rest)
  from Cons.prems(1) obtain hit where hit: "nodes_include (cs_route (snd entry)) peerId = Inr hit"
    by (cases "nodes_include (cs_route (snd entry)) peerId") auto
  define s1 where "s1 = (if hit then closeSession s now (fst entry) else s)"
  from Cons.prems(1) hit have rest: "closeSessionsUsing peerId now rest s1 = (Inr u, s')"
    by (simp add: s1_def)
  show ?case
  proof (cases "e \<in> set rest")
    case True
    from Cons.IH [OF rest True] show ?thesis .
  next
    case False
    with Cons.prems(2) have e: "e = entry" by simp
    have sub: "set (clientSessions s') \<subseteq> set (clientSessions s1)"
      using closeSessionsUsing_subset [of peerId now rest s1] rest by simp
    have "hit \<longrightarrow> fst e \<notin> fst ` set (clientSessions s1)"
      using closeSession_fields(4) [of "fst entry" s now] by (simp add: s1_def e)
    with sub have "hit \<longrightarrow> fst e \<notin> fst ` set (clientSessions s')"
      by blast
    with hit e show ?thesis
      by blast
  qed
qed

text \<open>
  When \<open>handlePeerDisconnection\<close> returns, no entry of the active-route table and no
  entry of the session table has the peer in its hop list. The route cache is as before,
  whether the method returns or throws.
\<close>

lemma handlePeerDisconnection_purges:
  assumes "handlePeerDisconnection s now peerId = (Inr u, s')"
  shows "(\<forall>e \<in> set (activeRoutes s'). nodes_include (snd e) peerId = Inr False)
       \<and> (\<forall>e \<in> set (clientSessions s'). nodes_include (cs_route (snd e)) peerId = Inr False)"
proof -
  from assms obtain ids where ids: "routesToRemove peerId (activeRoutes s) = Inr ids"
    by (cases "routesToRemove peerId (activeRoutes s)") (auto simp: handlePeerDisconnection_def)
  define s1 where
    "s1 = fold (\<lambda>routeId st. st\<lparr>activeRoutes := Map_delete (activeRoutes st) routeId\<rparr>) ids s"
  from assms ids have loop: "closeSessionsUsing peerId now (clientSessions s1) s1 = (Inr u, s')"
    by (simp add: handlePeerDisconnection_def s1_def Let_def)
  have r1: "activeRoutes s1 = filter (\<lambda>e. fst e \<notin> set ids) (activeRoutes s)"
    using delete_loop [of ids s] by (simp add: s1_def)
  note rem = routesToRemove_Inr [OF ids]
  have routes: "\<forall>e \<in> set (activeRoutes s1). nodes_include (snd e) peerId = Inr False"
  proof
    fix e assume e: "e \<in> set (activeRoutes s1)"
    then have in_s: "e \<in> set (activeRoutes s)" and not_ids: "fst e \<notin> set ids"
      by (simp_all add: r1)
    from rem in_s obtain hit where hit: "nodes_include (snd e) peerId = Inr hit"
      by blast
    have "\<not> hit"
    proof
      assume hit
      with hit in_s rem have "fst e \<in> set ids" by force
      with not_ids show False by simp
    qed
    with hit show "nodes_include (snd e) peerId = Inr False"
      by simp
  qed
  have sub: "set (activeRoutes s') \<subseteq> set (activeRoutes s1)"
    "set (clientSessions s') \<subseteq> set (clientSessions s1)"
    using closeSessionsUsing_subset [of peerId now "clientSessions s1" s1] loop by simp_all
  have sessions: "\<forall>e \<in> set (clientSessions s'). nodes_include (cs_route (snd e)) peerId = Inr False"
  proof
    fix e assume e: "e \<in> set (clientSessions s')"
    then have "e \<in> set (clientSessions s1)" using sub by blast
    from closeSessionsUsing_closes [OF loop this] obtain hit where
      hit: "nodes_include (cs_route (snd e)) peerId = Inr hit"
      and closed: "hit \<longrightarrow> fst e \<notin> fst ` set (clientSessions s')"
      by blast
    from closed e have "\<not> hit" by blast
    with hit show "nodes_include (cs_route (snd e)) peerId = Inr False"
      by simp
  qed
  from routes sub(1) sessions show ?thesis
    by blast
qed

lemma handlePeerDisconnection_keeps_cache:
  "routeCache (snd (handlePeerDisconnection s now peerId)) = routeCache s"
proof (cases "routesToRemove peerId (activeRoutes s)")
  case (Inl e)
  then show ?thesis
    by (simp add: handlePeerDisconnection_def)
next
  case (Inr ids)
  define s1 where
    "s1 = fold (\<lambda>routeId st. st\<lparr>activeRoutes := Map_delete (activeRoutes st) routeId\<rparr>) ids s"
  have "routeCache s1 = routeCache s"
    using delete_loop [of ids s] by (simp add: s1_def)
  moreover have "routeCache (snd (closeSessionsUsing peerId now (clientSessions s1) s1)) = routeCache s1"
    using closeSessionsUsing_subset [of peerId now "clientSessions s1" s1] by simp
  ultimately show ?thesis
    using Inr by (simp add: handlePeerDisconnection_def s1_def Let_def)
qed

lemma example_disconnect:
  "handlePeerDisconnection example_router 0 ''n3'' =
     (Inr (),
      \<lparr>activeRoutes = [(''r1'', route_via ''r1'' ''n1'')],
       clientSessions = [(''s1'', session_on ''s1'' (route_via ''r1'' ''n1''))],
       routeCache = [(''dest:h'', route_via ''r3'' ''n3'')],
       routeTimeout = 300000, maxCacheSize = 1000\<rparr>)"
  by (simp add: handlePeerDisconnection_def nodes_include_def closeSession_def cleanupRoute_def
      Map_get_def Map_delete_filter example_router_def route_via_def session_on_def Let_def)

lemma example_candidates:
  assumes "minBandwidth requirements = None" "maxLatency requirements = None"
    "regions requirements = None"
  shows "getAvailableNodes example_peers requirements = Inr example_peers"
  using assms
  by (simp add: example_peers_def peer_def nodeAvailable_def bandwidthTooLow_def
      latencyTooHigh_def)

lemma toString_router_state:
  "toString_router =
     \<lparr>activeRoutes = [(''r1'', route_via ''r1'' ''n1''), (''r3'', route_via ''r3'' ''n3''),
                       (''r4'', \<lparr>rt_id = ''r4'', rt_nodes = None, rt_latency = None,
                                  rt_bandwidth = None, rt_cost = None, rt_encrypted = True,
                                  rt_expiresAt = 300000\<rparr>)],
      clientSessions = [(''s1'', session_on ''s1'' (route_via ''r1'' ''n1'')),
                        (''s3'', session_on ''s3'' (route_via ''r3'' ''n3''))],
      routeCache = [(''dest:h'', route_via ''r3'' ''n3''),
                    (''other:h'', \<lparr>rt_id = ''r4'', rt_nodes = None, rt_latency = None,
                                     rt_bandwidth = None, rt_cost = None, rt_encrypted = True,
                                     rt_expiresAt = 300000\<rparr>)],
      routeTimeout = 300000, maxCacheSize = 1000\<rparr>"
proof -
  have req: "minBandwidth toString_requirements = None" "maxLatency toString_requirements = None"
    "regions toString_requirements = None" "encryption toString_requirements = None"
    "algorithm toString_requirements = Some ''toString''"
    by (simp_all add: toString_requirements_def no_requirements_def)
  have len: "length example_peers \<noteq> 0"
    by (simp add: example_peers_def)
  have opt: "findOptimalPath example_peers toString_requirements = Inr FieldlessValue"
    by (simp add: findOptimalPath_def req)
  have miss: "findRoute_miss example_peers s now newId cacheKey destination toString_requirements =
     (let rt = \<lparr>rt_id = newId, rt_nodes = None, rt_latency = None, rt_bandwidth = None,
                rt_cost = None, rt_encrypted = True, rt_expiresAt = now + routeTimeout s\<rparr>;
          s1 = cacheRoute s cacheKey rt
      in (Inr rt, s1\<lparr>activeRoutes := Map_set (activeRoutes s1) newId rt\<rparr>))"
    for s now newId cacheKey destination
    using len
    by (simp add: findRoute_miss_def example_candidates [OF req(1,2,3)] opt req(4)
        path_field_def Let_def)
  show ?thesis
    unfolding toString_router_def
    by (simp add: findRoute_def findRoute_body_def rethrow_def generateCacheKey_def
        example_hash_def miss cacheRoute_def Map_get_def Map_set_def Map_delete_filter Let_def
        example_router_def)
qed

text \<open>
  Claim C7 fails on the code. \<open>handlePeerDisconnection\<close> goes through the active routes
  and the sessions only. When peer \<open>n3\<close> is dropped from the example router, the route
  through \<open>n3\<close> leaves the active-route table and its session is closed, but the cached
  route through \<open>n3\<close> stays, and the next \<open>findRoute\<close> for its destination returns
  that route, while \<open>invalidateRouteCache\<close>, which \<open>updateNodeBandwidth\<close> calls for a
  peer, would have deleted it. And on a router that holds a route without a hop list, made
  by a request naming the algorithm \<open>toString\<close>, \<open>handlePeerDisconnection\<close> throws
  before it removes anything: the active route through \<open>n3\<close> and its session stay.
\<close>

theorem handlePeerDisconnection_leaves_routes:
  "handlePeerDisconnection example_router 0 ''n3'' =
     (Inr (),
      \<lparr>activeRoutes = [(''r1'', route_via ''r1'' ''n1'')],
       clientSessions = [(''s1'', session_on ''s1'' (route_via ''r1'' ''n1''))],
       routeCache = [(''dest:h'', route_via ''r3'' ''n3'')],
       routeTimeout = 300000, maxCacheSize = 1000\<rparr>)
   \<and> rt_nodes (route_via ''r3'' ''n3'') = Some [''n3'']
   \<and> fst (findRoute example_hash remaining_peers
             (snd (handlePeerDisconnection example_router 0 ''n3'')) 1 ''r5'' ''dest''
             no_requirements)
       = Inr (route_via ''r3'' ''n3'')
   \<and> invalidateRouteCache example_router ''n3'' = (Inr (), example_router\<lparr>routeCache := []\<rparr>)
   \<and> Map_get (activeRoutes toString_router) ''r4''
       = Some \<lparr>rt_id = ''r4'', rt_nodes = None, rt_latency = None, rt_bandwidth = None,
               rt_cost = None, rt_encrypted = True, rt_expiresAt = 300000\<rparr>
   \<and> handlePeerDisconnection toString_router 1 ''n3'' =
       (Inl (TypeError ''Cannot read properties of undefined (reading 'includes')''),
        toString_router)
   \<and> Map_get (activeRoutes toString_router) ''r3'' = Some (route_via ''r3'' ''n3'')
   \<and> Map_get (clientSessions toString_router) ''s3''
       = Some (session_on ''s3'' (route_via ''r3'' ''n3''))"
proof -
  have a: "fst (findRoute example_hash remaining_peers
             (snd (handlePeerDisconnection example_router 0 ''n3'')) 1 ''r5'' ''dest''
             no_requirements)
       = Inr (route_via ''r3'' ''n3'')"
    unfolding example_disconnect
    by (simp add: findRoute_def findRoute_body_def rethrow_def generateCacheKey_def
        example_hash_def Map_get_def route_via_def)
  have b: "invalidateRouteCache example_router ''n3'' = (Inr (), example_router\<lparr>routeCache := []\<rparr>)"
    by (simp add: invalidateRouteCache_def nodes_include_def example_router_def route_via_def
        Map_delete_filter)
  have c: "handlePeerDisconnection toString_router 1 ''n3'' =
       (Inl (TypeError ''Cannot read properties of undefined (reading 'includes')''),
        toString_router)"
    by (simp add: handlePeerDisconnection_def)
       (simp add: toString_router_state nodes_include_def route_via_def)
  have d: "Map_get (activeRoutes toString_router) ''r4''
       = Some \<lparr>rt_id = ''r4'', rt_nodes = None, rt_latency = None, rt_bandwidth = None,
               rt_cost = None, rt_encrypted = True, rt_expiresAt = 300000\<rparr>"
    "Map_get (activeRoutes toString_router) ''r3'' = Some (route_via ''r3'' ''n3'')"
    "Map_get (clientSessions toString_router) ''s3''
       = Some (session_on ''s3'' (route_via ''r3'' ''n3''))"
    by (simp_all add: toString_router_state Map_get_def)
  have e: "rt_nodes (route_via ''r3'' ''n3'') = Some [''n3'']"
    by (simp add: route_via_def)
  from example_disconnect a b c d e show ?thesis
    by simp
qed

section \<open>Router: route lookup\<close>

lemma Map_delete_absent: "Map_get m k = None \<Longrightarrow> Map_delete m k = m"
  by (auto simp: Map_delete_filter Map_get_None filter_id_conv)

lemma findRoute_miss_empty:
  assumes "getAvailableNodes discovered requirements = Inr []"
  shows "findRoute_miss discovered s now newId cacheKey destination requirements =
           (Inl (RouteNotFoundError destination), s)"
  using assms by (simp add: findRoute_miss_def)

text \<open>
  Claim C8, as the code has it. When the cache holds no unexpired route for the key of the
  request and no discovered node passes the filter, \<open>findRoute\<close> fails with code
  \<open>ROUTE_FINDING_ERROR\<close> and the message of the route-not-found error behind the prefix
  \<open>Route finding failed:\<close>; the active-route table is unchanged and the cache is
  unchanged except that an expired entry for the key has been deleted.
\<close>

theorem findRoute_no_candidates:
  assumes "getAvailableNodes discovered requirements = Inr []"
      and "case Map_get (routeCache s) (generateCacheKey hashReq destination requirements) of
             None \<Rightarrow> True | Some cachedRoute \<Rightarrow> rt_expiresAt cachedRoute \<le> now"
  shows "findRoute hashReq discovered s now newId destination requirements =
     (Inl (NetworkNeuronError (''Route finding failed: No route found to '' @ destination)
             ''ROUTE_FINDING_ERROR''),
      s\<lparr>routeCache := Map_delete (routeCache s)
                         (generateCacheKey hashReq destination requirements)\<rparr>)"
proof (cases "Map_get (routeCache s) (generateCacheKey hashReq destination requirements)")
  case None
  then show ?thesis
    using assms(1)
    by (simp add: findRoute_def findRoute_body_def rethrow_def findRoute_miss_empty
        RouteNotFoundError_def Map_delete_absent)
next
  case (Some c)
  then show ?thesis
    using assms
    by (simp add: findRoute_def findRoute_body_def rethrow_def findRoute_miss_empty
        RouteNotFoundError_def)
qed

theorem findRoute_no_candidates_witness:
  "getAvailableNodes [] no_requirements = Inr []
   \<and> Map_get (routeCache example_router) (generateCacheKey example_hash ''other'' no_requirements) = None
   \<and> findRoute example_hash [] example_router 0 ''r'' ''other'' no_requirements =
       (Inl (NetworkNeuronError ''Route finding failed: No route found to other''
               ''ROUTE_FINDING_ERROR''), example_router)
   \<and> Map_get (routeCache example_router) (generateCacheKey example_hash ''dest'' no_requirements)
       = Some (route_via ''r3'' ''n3'')
   \<and> rt_expiresAt (route_via ''r3'' ''n3'') \<le> 300000
   \<and> findRoute example_hash [] example_router 300000 ''r'' ''dest'' no_requirements =
       (Inl (NetworkNeuronError ''Route finding failed: No route found to dest''
               ''ROUTE_FINDING_ERROR''), example_router\<lparr>routeCache := []\<rparr>)"
proof -
  have k: "Map_get (routeCache example_router) (generateCacheKey example_hash ''other'' no_requirements) = None"
    "Map_get (routeCache example_router) (generateCacheKey example_hash ''dest'' no_requirements)
       = Some (route_via ''r3'' ''n3'')"
    "rt_expiresAt (route_via ''r3'' ''n3'') \<le> 300000"
    by (simp_all add: example_router_def generateCacheKey_def example_hash_def Map_get_def
        route_via_def)
  have d: "Map_delete (routeCache example_router) (generateCacheKey example_hash ''other'' no_requirements)
             = routeCache example_router"
    "Map_delete (routeCache example_router) (generateCacheKey example_hash ''dest'' no_requirements)
             = []"
    by (simp_all add: example_router_def generateCacheKey_def example_hash_def Map_delete_filter)
  have e: "getAvailableNodes [] no_requirements = Inr []"
    by simp
  show ?thesis
    using findRoute_no_candidates [where discovered = "[]" and requirements = no_requirements
          and s = example_router and hashReq = example_hash and destination = "''other''"
          and now = 0 and newId = "''r''"]
      findRoute_no_candidates [where discovered = "[]" and requirements = no_requirements
          and s = example_router and hashReq = example_hash and destination = "''dest''"
          and now = 300000 and newId = "''r''"]
    by (simp add: k d)
qed

text \<open>
  Claim C8 as worded fails: with no discovered node at all, a request whose key has an
  unexpired cache entry returns the cached route.
\<close>

theorem findRoute_cached_counterexample:
  "getAvailableNodes [] no_requirements = Inr []
   \<and> findRoute example_hash [] example_router 0 ''r'' ''dest'' no_requirements =
       (Inr (route_via ''r3'' ''n3''), example_router)"
  by (simp add: findRoute_def findRoute_body_def rethrow_def generateCacheKey_def example_hash_def
      example_router_def Map_get_def route_via_def)

lemma example_scores:
  "map totalScore example_peers =
     [7 / 8, 5764607523034235 / 9007199254740992, 1450722029966721 / 1125899906842624]"
  by (simp add: example_peers_def peer_def totalScore_def node_download_def node_latency_def
      node_uptime_def or_default_def f_eval)

lemma example_path:
  "findOptimalPath example_peers no_requirements =
     Inr (PathObject \<lparr>p_nodes = [''n3''], p_latency = 25, p_bandwidth = 200, p_cost = 1\<rparr>)"
  using example_scores
  by (simp add: findOptimalPath_def as_path_def no_requirements_def findBalancedPath_def
      example_peers_def singleHop_def peer_def node_download_def node_latency_def or_default_def)

lemma example_miss:
  "findRoute_miss example_peers s now newId cacheKey destination no_requirements =
     (let rt = \<lparr>rt_id = newId, rt_nodes = Some [''n3''], rt_latency = Some 25,
                rt_bandwidth = Some 200, rt_cost = Some 1, rt_encrypted = True,
                rt_expiresAt = now + routeTimeout s\<rparr>;
          s1 = cacheRoute s cacheKey rt
      in (Inr rt, s1\<lparr>activeRoutes := Map_set (activeRoutes s1) newId rt\<rparr>))"
proof -
  have req: "minBandwidth no_requirements = None" "maxLatency no_requirements = None"
    "regions no_requirements = None" "encryption no_requirements = None"
    by (simp_all add: no_requirements_def)
  have "length example_peers \<noteq> 0"
    by (simp add: example_peers_def)
  then show ?thesis
    by (simp add: findRoute_miss_def example_candidates [OF req(1,2,3)] example_path req(4)
        path_field_def Let_def)
qed

lemmas router_eval =
  findRoute_def findRoute_body_def rethrow_def generateCacheKey_def example_hash_def example_miss
  cacheRoute_def Map_get_def Map_set_def Map_delete_filter Let_def

lemma lru_step1_state:
  "lru_step1 =
     \<lparr>activeRoutes = [(''r1'', \<lparr>rt_id = ''r1'', rt_nodes = Some [''n3''], rt_latency = Some 25,
          rt_bandwidth = Some 200, rt_cost = Some 1, rt_encrypted = True, rt_expiresAt = 300000\<rparr>)],
      clientSessions = [],
      routeCache = [(''d1:h'', \<lparr>rt_id = ''r1'', rt_nodes = Some [''n3''], rt_latency = Some 25,
          rt_bandwidth = Some 200, rt_cost = Some 1, rt_encrypted = True, rt_expiresAt = 300000\<rparr>)],
      routeTimeout = 300000, maxCacheSize = 2\<rparr>"
  by (simp add: lru_step1_def lru_router_def new_router_def router_eval)

lemma lru_step2_state:
  "lru_step2 =
     \<lparr>activeRoutes = [(''r1'', \<lparr>rt_id = ''r1'', rt_nodes = Some [''n3''], rt_latency = Some 25,
          rt_bandwidth = Some 200, rt_cost = Some 1, rt_encrypted = True, rt_expiresAt = 300000\<rparr>),
                       (''r2'', \<lparr>rt_id = ''r2'', rt_nodes = Some [''n3''], rt_latency = Some 25,
          rt_bandwidth = Some 200, rt_cost = Some 1, rt_encrypted = True, rt_expiresAt = 300001\<rparr>)],
      clientSessions = [],
      routeCache = [(''d1:h'', \<lparr>rt_id = ''r1'', rt_nodes = Some [''n3''], rt_latency = Some 25,
          rt_bandwidth = Some 200, rt_cost = Some 1, rt_encrypted = True, rt_expiresAt = 300000\<rparr>),
                    (''d2:h'', \<lparr>rt_id = ''r2'', rt_nodes = Some [''n3''], rt_latency = Some 25,
          rt_bandwidth = Some 200, rt_cost = Some 1, rt_encrypted = True, rt_expiresAt = 300001\<rparr>)],
      routeTimeout = 300000, maxCacheSize = 2\<rparr>"
  by (simp add: lru_step2_def lru_step1_state router_eval)

lemma lru_hit:
  "findRoute example_hash example_peers lru_step2 2 ''r3'' ''d1'' no_requirements =
     (Inr \<lparr>rt_id = ''r1'', rt_nodes = Some [''n3''], rt_latency = Some 25,
          rt_bandwidth = Some 200, rt_cost = Some 1, rt_encrypted = True, rt_expiresAt = 300000\<rparr>,
      lru_step2)"
  by (simp add: lru_step2_state router_eval)

lemma lru_step3_state: "lru_step3 = lru_step2"
  by (simp add: lru_step3_def lru_hit)

lemma lru_step4_cache: "map fst (routeCache lru_step4) = [''d2:h'', ''d3:h'']"
  by (simp add: lru_step4_def lru_step3_state lru_step2_state router_eval)

text \<open>
  Claim C9 fails on the code. \<open>cacheRoute\<close>, under the comment "Implement LRU cache",
  deletes the first key in insertion order, and a cache hit does not move the entry it
  returns. With a maximum of 2: after inserting \<open>d1\<close> and \<open>d2\<close> the lookup of \<open>d1\<close> is
  a hit, and the insertion of \<open>d3\<close> then evicts \<open>d1\<close>, the entry used last, and keeps
  \<open>d2\<close>, the least recently used one.
\<close>

theorem cache_eviction_is_not_lru:
  "map fst (routeCache lru_step2) = [''d1:h'', ''d2:h'']
   \<and> findRoute example_hash example_peers lru_step2 2 ''r3'' ''d1'' no_requirements =
     (Inr \<lparr>rt_id = ''r1'', rt_nodes = Some [''n3''], rt_latency = Some 25,
          rt_bandwidth = Some 200, rt_cost = Some 1, rt_encrypted = True, rt_expiresAt = 300000\<rparr>,
      lru_step3)
   \<and> map fst (routeCache lru_step4) = [''d2:h'', ''d3:h'']"
  by (simp add: lru_hit lru_step3_state lru_step4_cache) (simp add: lru_step2_state)

end
